theory Spec2Isabelle
  imports Complex_Main "HOL-Library.Word"
begin

unbundle bit_operations_syntax

section \<open>JavaScript values\<close>

text \<open>
  The plugin builds plain JavaScript objects and prints them. A value is one of the
  kinds that \<open>typeof\<close> and \<open>Array.isArray\<close> tell apart in \<open>serialize\<close>; \<open>JOther t\<close>
  stands for a value whose \<open>typeof\<close> is \<open>t\<close> (function, symbol, bigint), which
  \<open>serialize\<close> rejects. Numbers of the scene graph are modelled as integers (pixel
  values): JavaScript prints such a number in plain decimal. Objects are association
  lists in insertion order, the order \<open>Object.entries\<close> enumerates.
\<close>

datatype jsval =
    JNull
  | JUndef
  | JBool bool
  | JNum int
  | JStr string
  | JArr "jsval list"
  | JObj "(string \<times> jsval) list"
  | JOther string

datatype error =
    UnsupportedType string
  | TypeError string
  | HostError string

text \<open>Truthiness, and the short-circuit operators \<open>&&\<close> and \<open>||\<close>, which return one
  of their operands.\<close>

fun truthy :: "jsval \<Rightarrow> bool" where
  "truthy JNull = False"
| "truthy JUndef = False"
| "truthy (JBool b) = b"
| "truthy (JNum n) = (n \<noteq> 0)"
| "truthy (JStr s) = (s \<noteq> [])"
| "truthy (JArr _) = True"
| "truthy (JObj _) = True"
| "truthy (JOther _) = True"

definition js_and :: "jsval \<Rightarrow> jsval \<Rightarrow> jsval" where
  "js_and a b = (if truthy a then b else a)"

definition js_or :: "jsval \<Rightarrow> jsval \<Rightarrow> jsval" where
  "js_or a b = (if truthy a then a else b)"

subsection \<open>Strings and numbers as text\<close>

text \<open>The decimal digits; \<open>digit_char\<close> is applied to numbers below ten only.\<close>

definition digits :: string where
  "digits = ''0123456789''"

definition digit_char :: "nat \<Rightarrow> char" where
  "digit_char d = digits ! d"

fun nat_toString :: "nat \<Rightarrow> string" where
  "nat_toString n = (if n < 10 then [digit_char n]
                     else nat_toString (n div 10) @ [digit_char (n mod 10)])"

declare nat_toString.simps [simp del]

text \<open>\<open>Number.prototype.toString\<close> on an integral value of magnitude below 10^21, where
  JavaScript prints the plain decimal numeral; numbers are integers throughout.\<close>

definition num_toString :: "int \<Rightarrow> string" where
  "num_toString i = (if i < 0 then CHR ''-'' # nat_toString (nat (- i))
                     else nat_toString (nat i))"

text \<open>\<open>Array.prototype.join\<close>.\<close>

fun join :: "string \<Rightarrow> string list \<Rightarrow> string" where
  "join sep [] = []"
| "join sep [s] = s"
| "join sep (s # t # ss) = s @ sep @ join sep (t # ss)"

text \<open>\<open>"  ".repeat(level)\<close>.\<close>

definition indent :: "nat \<Rightarrow> string" where
  "indent level = concat (replicate level ''  '')"

text \<open>\<open>value.replace(/"/g, '\\"')\<close>: a backslash before every double quote.\<close>

definition escape_quotes :: "string \<Rightarrow> string" where
  "escape_quotes s = concat (map (\<lambda>c. if c = CHR 0x22 then [CHR 0x5C, CHR 0x22] else [c]) s)"

text \<open>\<open>s.replace(/\s/g, "")\<close> on the ASCII white space characters.\<close>

definition is_space :: "char \<Rightarrow> bool" where
  "is_space c = (c \<in> {CHR '' '', CHR 0x09, CHR 0x0A, CHR 0x0B, CHR 0x0C, CHR 0x0D})"

definition strip_spaces :: "string \<Rightarrow> string" where
  "strip_spaces s = filter (\<lambda>c. \<not> is_space c) s"

text \<open>\<open>s.replace(/\n/g, "")\<close>.\<close>

definition strip_newlines :: "string \<Rightarrow> string" where
  "strip_newlines s = filter (\<lambda>c. c \<noteq> CHR 0x0A) s"

section \<open>Color Packer\<close>

text \<open>
  \<open>packColor\<close>. The channels are real numbers here; \<open>x & 0xFF\<close> first converts \<open>x\<close> by
  ToInt32 (truncation towards zero, modulo \<open>2^32\<close>), and the shifts and \<open>|\<close> work on
  32-bit integers and give a signed 32-bit integer, which is what \<open>sint\<close> reads.
\<close>

definition clamp :: "real \<Rightarrow> real \<Rightarrow> real \<Rightarrow> real" where
  "clamp val mn mx = max mn (min mx val)"

definition toInt32 :: "real \<Rightarrow> 32 word" where
  "toInt32 v = word_of_int (if v < 0 then \<lceil>v\<rceil> else \<lfloor>v\<rfloor>)"

definition packColor :: "real \<Rightarrow> real \<Rightarrow> real \<Rightarrow> real \<Rightarrow> int" where
  "packColor r g b a =
     (let R = toInt32 (clamp r 0 1 * 255) AND 0xFF;
          G = toInt32 (clamp g 0 1 * 255) AND 0xFF;
          B = toInt32 (clamp b 0 1 * 255) AND 0xFF;
          A = toInt32 (clamp a 0 1 * 255) AND 0xFF
      in sint (push_bit 24 A OR push_bit 16 R OR push_bit 8 G OR B))"

section \<open>Value Serializer\<close>

text \<open>The test \<open>/^[aZAZ][aZAZ09]*$/.test(k)\<close>: the character classes hold the letters
  written in them, one by one.\<close>

definition key_first :: "char \<Rightarrow> bool" where
  "key_first c = (c \<in> {CHR ''a'', CHR ''Z'', CHR ''A''})"

definition key_rest :: "char \<Rightarrow> bool" where
  "key_rest c = (c \<in> {CHR ''a'', CHR ''Z'', CHR ''A'', CHR ''0'', CHR ''9''})"

definition key_test :: "string \<Rightarrow> bool" where
  "key_test k = (case k of [] \<Rightarrow> False | c # cs \<Rightarrow> key_first c \<and> list_all key_rest cs)"

definition emit_key :: "string \<Rightarrow> string" where
  "emit_key k = (if key_test k then k else ''['' @ [CHR 0x22] @ k @ [CHR 0x22] @ '']'')"

text \<open>The brace block both the array and the object branch build.\<close>

definition braces :: "nat \<Rightarrow> string list \<Rightarrow> string" where
  "braces level items =
     ''{'' @ [CHR 0x0A] @ indent (level + 1)
       @ join ('','' @ [CHR 0x0A] @ indent (level + 1)) items
       @ [CHR 0x0A] @ indent level @ ''}''"

fun serialize :: "jsval \<Rightarrow> nat \<Rightarrow> error + string"
  and serialize_items :: "jsval list \<Rightarrow> nat \<Rightarrow> error + string list"
  and serialize_entries :: "(string \<times> jsval) list \<Rightarrow> nat \<Rightarrow> error + string list"
where
  "serialize JNull level = Inr ''nil''"
| "serialize JUndef level = Inr ''nil''"
| "serialize (JBool b) level = Inr (if b then ''true'' else ''false'')"
| "serialize (JNum n) level = Inr (num_toString n)"
| "serialize (JStr s) level = Inr ([CHR 0x22] @ escape_quotes s @ [CHR 0x22])"
| "serialize (JArr vs) level =
     (if vs = [] then Inr ''{}''
      else case serialize_items vs (level + 1) of
             Inl e \<Rightarrow> Inl e
           | Inr items \<Rightarrow> Inr (braces level items))"
| "serialize (JObj kvs) level =
     (case serialize_entries kvs (level + 1) of
        Inl e \<Rightarrow> Inl e
      | Inr entries \<Rightarrow> if entries = [] then Inr ''{}'' else Inr (braces level entries))"
| "serialize (JOther t) level = Inl (UnsupportedType t)"
| "serialize_items [] level = Inr []"
| "serialize_items (v # vs) level =
     (case serialize v level of
        Inl e \<Rightarrow> Inl e
      | Inr s \<Rightarrow> (case serialize_items vs level of
                   Inl e \<Rightarrow> Inl e
                 | Inr ss \<Rightarrow> Inr (s # ss)))"
| "serialize_entries [] level = Inr []"
| "serialize_entries ((k, v) # kvs) level =
     (case serialize v level of
        Inl e \<Rightarrow> Inl e
      | Inr s \<Rightarrow> (case serialize_entries kvs level of
                   Inl e \<Rightarrow> Inl e
                 | Inr ss \<Rightarrow> Inr ((emit_key k @ '' = '' @ s) # ss)))"

definition transpile :: "jsval \<Rightarrow> nat \<Rightarrow> error + string" where
  "transpile object indentLevel = serialize object indentLevel"

section \<open>Source nodes\<close>

text \<open>
  A scene node as the host hands it over. A property that the code looks up with
  \<open>"p" in figmaNode\<close> is an \<open>option\<close>: \<open>None\<close> when the node has no such property. The
  four corner radii, the four stroke weights and the four paddings come together (the
  code tests the first of each group and then reads all four). \<open>fontName\<close> and
  \<open>fontSize\<close> are \<open>None\<close> when they are \<open>figma.mixed\<close>; \<open>styledTextSegments\<close> is what
  \<open>getStyledTextSegments(['fontName', 'fontSize'])\<close> returns.
\<close>

record paint =
  paint_type :: string
  color :: "real \<times> real \<times> real"
  opacity :: "real option"

record node_attrs =
  node_type :: string
  node_name :: string
  node_visible :: bool
  node_x :: int
  node_y :: int
  node_width :: int
  node_height :: int
  layoutPositioning :: "string option"
  layoutMode :: "string option"
  layoutWrap :: "string option"
  primaryAxisAlignItems :: "string option"
  counterAxisAlignItems :: "string option"
  itemSpacing :: "int option"
  layoutSizingHorizontal :: "string option"
  layoutSizingVertical :: "string option"
  fills :: "paint list option"
  strokes :: "paint list option"
  cornerRadii :: "(int \<times> int \<times> int \<times> int) option"
  strokeWeights :: "(int \<times> int \<times> int \<times> int) option"
  paddings :: "(int \<times> int \<times> int \<times> int) option"
  characters :: string
  fontName :: "(string \<times> string) option"
  fontSize :: "int option"
  styledTextSegments :: "((string \<times> string) \<times> int) list"
  textAutoResize :: string

datatype scene_node = SceneNode (attrs: node_attrs) (children: "scene_node list option")

section \<open>Style Extractor\<close>

definition find_solid :: "paint list \<Rightarrow> paint option" where
  "find_solid ps =
     List.find (\<lambda>p. paint_type p = ''SOLID'' \<and> (case opacity p of None \<Rightarrow> 1 | Some v \<Rightarrow> v) > 0) ps"

definition pack_paint :: "paint \<Rightarrow> int" where
  "pack_paint p = (case color p of (r, g, b) \<Rightarrow>
                     packColor r g b (case opacity p of None \<Rightarrow> 1 | Some v \<Rightarrow> v))"

definition getFillColor :: "node_attrs \<Rightarrow> int option" where
  "getFillColor a =
     (case fills a of
        None \<Rightarrow> None
      | Some fs \<Rightarrow> (case find_solid fs of None \<Rightarrow> None | Some solid \<Rightarrow> Some (pack_paint solid)))"

definition getStrokeColor :: "node_attrs \<Rightarrow> int option" where
  "getStrokeColor a =
     (case strokes a of
        None \<Rightarrow> None
      | Some fs \<Rightarrow> (case find_solid fs of None \<Rightarrow> None | Some solid \<Rightarrow> Some (pack_paint solid)))"

definition getTextColor :: "node_attrs \<Rightarrow> int option" where
  "getTextColor a =
     (case fills a of
        None \<Rightarrow> None
      | Some fs \<Rightarrow> (case find_solid fs of None \<Rightarrow> None | Some solid \<Rightarrow> Some (pack_paint solid)))"

text \<open>\<open>if (v > 0) props.key = v\<close>: the object gets the key after the ones it has.\<close>

definition put_positive :: "string \<Rightarrow> int \<Rightarrow> (string \<times> int) list" where
  "put_positive k v = (if v > 0 then [(k, v)] else [])"

definition getBorderRadiusProps :: "node_attrs \<Rightarrow> (string \<times> int) list" where
  "getBorderRadiusProps a =
     (case cornerRadii a of
        None \<Rightarrow> []
      | Some (topLeftRadius, topRightRadius, bottomLeftRadius, bottomRightRadius) \<Rightarrow>
          if topLeftRadius = topRightRadius \<and> topRightRadius = bottomLeftRadius
             \<and> bottomLeftRadius = bottomRightRadius \<and> topLeftRadius > 0
          then [(''borderRadius'', topLeftRadius)]
          else put_positive ''borderTopLeftRadius'' topLeftRadius
             @ put_positive ''borderTopRightRadius'' topRightRadius
             @ put_positive ''borderBottomLeftRadius'' bottomLeftRadius
             @ put_positive ''borderBottomRightRadius'' bottomRightRadius)"

definition getStrokeWeightProps :: "node_attrs \<Rightarrow> (string \<times> int) list" where
  "getStrokeWeightProps a =
     (case strokeWeights a of
        None \<Rightarrow> []
      | Some (strokeLeftWeight, strokeTopWeight, strokeRightWeight, strokeBottomWeight) \<Rightarrow>
          if strokeLeftWeight = strokeTopWeight \<and> strokeTopWeight = strokeRightWeight
             \<and> strokeRightWeight = strokeBottomWeight \<and> strokeLeftWeight > 0
          then [(''strokeWeight'', strokeLeftWeight)]
          else put_positive ''strokeLeftWeight'' strokeLeftWeight
             @ put_positive ''strokeTopWeight'' strokeTopWeight
             @ put_positive ''strokeRightWeight'' strokeRightWeight
             @ put_positive ''strokeBottomWeight'' strokeBottomWeight)"

definition getPaddingProps :: "node_attrs \<Rightarrow> (string \<times> int) list" where
  "getPaddingProps a =
     (case paddings a of
        None \<Rightarrow> []
      | Some (paddingLeft, paddingTop, paddingRight, paddingBottom) \<Rightarrow>
          if paddingLeft = paddingTop \<and> paddingTop = paddingRight
             \<and> paddingRight = paddingBottom \<and> paddingLeft > 0
          then [(''padding'', paddingLeft)]
          else put_positive ''paddingLeft'' paddingLeft
             @ put_positive ''paddingTop'' paddingTop
             @ put_positive ''paddingRight'' paddingRight
             @ put_positive ''paddingBottom'' paddingBottom)"

text \<open>\<open>getTextFont\<close>: the file name of the font and its size. The size is kept in
  quarters of a unit (\<open>3 * fontSize\<close> quarters is \<open>fontSize * 0.75\<close>, which a double
  holds exactly); \<open>segments[0]\<close> of an empty list is \<open>undefined\<close>, and reading its
  \<open>fontName\<close> raises.\<close>

definition font_file :: "string \<times> string \<Rightarrow> string" where
  "font_file fn = (case fn of (family, style) \<Rightarrow> family @ ''-'' @ strip_spaces style @ ''.ttf'')"

definition getTextFont :: "node_attrs \<Rightarrow> error + (string \<times> int)" where
  "getTextFont a =
     (case (fontName a, fontSize a) of
        (Some fn, Some sz) \<Rightarrow> Inr (font_file fn, 3 * sz)
      | _ \<Rightarrow> (case styledTextSegments a of
                [] \<Rightarrow> Inl (TypeError ''first is undefined'')
              | (fn, sz) # _ \<Rightarrow> Inr (font_file fn, 3 * sz)))"

text \<open>A number of quarters printed: an integer, or one ending in .25, .5 or .75.\<close>

definition quarters_toString :: "int \<Rightarrow> string" where
  "quarters_toString q =
     (let a = nat \<bar>q\<bar>;
          frac = (if a mod 4 = 1 then ''.25'' else if a mod 4 = 2 then ''.5''
                  else if a mod 4 = 3 then ''.75'' else '''')
      in (if q < 0 then ''-'' else '''') @ nat_toString (a div 4) @ frac)"

section \<open>Vector-Subtree Exporter\<close>

text \<open>The host's \<open>exportAsync\<close> (with the options the code passes) is a parameter: it
  takes the clone and gives the SVG text, or fails.\<close>

type_synonym host_export = "scene_node \<Rightarrow> error + string"

fun updateEffectiveVisibility :: "scene_node \<Rightarrow> scene_node" where
  "updateEffectiveVisibility (SceneNode a ch) =
     SceneNode (a\<lparr>node_visible := True\<rparr>)
               (case ch of None \<Rightarrow> None | Some cs \<Rightarrow> Some (map updateEffectiveVisibility cs))"

definition move_to_origin :: "scene_node \<Rightarrow> scene_node" where
  "move_to_origin n = (case n of SceneNode a ch \<Rightarrow> SceneNode (a\<lparr>node_x := 0, node_y := 0\<rparr>) ch)"

definition safelyExport :: "host_export \<Rightarrow> scene_node \<Rightarrow> error + string" where
  "safelyExport exportAsync figmaNode =
     (let clone = move_to_origin (updateEffectiveVisibility figmaNode)
      in case exportAsync clone of
           Inl e \<Rightarrow> Inl e
         | Inr content \<Rightarrow> Inr (strip_newlines content))"

section \<open>Tree Builder\<close>

text \<open>An intermediate layout node: the object \<open>createNode\<close> returns, with its
  \<open>constructor\<close>, its \<open>children\<close> (\<open>None\<close> when the object has no such key) and its
  other properties in the order of the object literal.\<close>

datatype lnode =
  LNode (l_constructor: string) (l_children: "lnode list option") (l_props: "(string \<times> jsval) list")

definition opt_num :: "int option \<Rightarrow> jsval" where
  "opt_num v = (case v of None \<Rightarrow> JUndef | Some n \<Rightarrow> JNum n)"

text \<open>\<open>...props\<close> in an object literal, for keys the object does not have yet.\<close>

definition spread :: "(string \<times> int) list \<Rightarrow> (string \<times> jsval) list" where
  "spread kvs = map (\<lambda>(k, v). (k, JNum v)) kvs"

definition or_default :: "string option \<Rightarrow> string \<Rightarrow> string" where
  "or_default v d = (case v of None \<Rightarrow> d | Some s \<Rightarrow> s)"

definition position_of :: "node_attrs \<Rightarrow> bool \<Rightarrow> string" where
  "position_of a parentIsFrame =
     (if \<not> parentIsFrame \<or> or_default (layoutPositioning a) ''AUTO'' = ''ABSOLUTE''
      then ''absolute'' else ''relative'')"

definition left_of :: "node_attrs \<Rightarrow> bool \<Rightarrow> jsval" where
  "left_of a parentIsFrame =
     (if position_of a parentIsFrame = ''absolute'' then JNum (node_x a) else JUndef)"

definition top_of :: "node_attrs \<Rightarrow> bool \<Rightarrow> jsval" where
  "top_of a parentIsFrame =
     (if position_of a parentIsFrame = ''absolute'' then JNum (node_y a) else JUndef)"

definition flexDirection_of :: "node_attrs \<Rightarrow> jsval" where
  "flexDirection_of a =
     (let layoutMode = or_default (layoutMode a) ''row''
      in js_or (js_and (JBool (layoutMode = ''HORIZONTAL'')) (JStr ''row''))
               (js_and (JBool (layoutMode = ''VERTICAL'')) (JStr ''column'')))"

definition flexWrap_of :: "node_attrs \<Rightarrow> jsval" where
  "flexWrap_of a =
     (let layoutWrap = or_default (layoutWrap a) ''NO_WRAP''
      in js_or (js_and (JBool (layoutWrap = ''NO_WRAP'')) (JStr ''nowrap''))
               (js_and (JBool (layoutWrap = ''WRAP'')) (JStr ''wrap'')))"

definition justifyContent_of :: "node_attrs \<Rightarrow> jsval" where
  "justifyContent_of a =
     (let primaryAxisAlignItems = or_default (primaryAxisAlignItems a) ''MIN''
      in js_or (js_or (js_or
           (js_and (JBool (primaryAxisAlignItems = ''MIN'')) (JStr ''flex-start''))
           (js_and (JBool (primaryAxisAlignItems = ''MAX'')) (JStr ''flex-end'')))
           (js_and (JBool (primaryAxisAlignItems = ''CENTER'')) (JStr ''center'')))
           (js_and (JBool (primaryAxisAlignItems = ''SPACE_BETWEEN'')) (JStr ''space-between'')))"

definition alignItems_of :: "node_attrs \<Rightarrow> jsval" where
  "alignItems_of a =
     (let counterAxisAlignItems = or_default (counterAxisAlignItems a) ''MIN''
      in js_or (js_or
           (js_and (JBool (counterAxisAlignItems = ''MIN'')) (JStr ''stretch''))
           (js_and (JBool (counterAxisAlignItems = ''MAX'')) (JStr ''flex-end'')))
           (js_and (JBool (counterAxisAlignItems = ''CENTER'')) (JStr ''center'')))"

subsection \<open>Sizing Resolver\<close>

definition width_of :: "node_attrs \<Rightarrow> bool \<Rightarrow> bool \<Rightarrow> jsval" where
  "width_of a parentIsMainAxisRow parentStretchItems =
     (let layoutSizingHorizontal = or_default (layoutSizingHorizontal a) ''FIXED''
      in js_or (js_or
           (js_and (JBool (layoutSizingHorizontal = ''FIXED'')) (JNum (node_width a)))
           (js_and (JBool (layoutSizingHorizontal = ''FILL''))
                   (js_or (js_and (js_and (JBool (\<not> parentIsMainAxisRow)) (JBool parentStretchItems))
                                  (JStr ''auto''))
                          (JStr ''100%''))))
           (js_and (JBool (layoutSizingHorizontal = ''HUG'')) (JStr ''fit-content'')))"

definition height_of :: "node_attrs \<Rightarrow> bool \<Rightarrow> bool \<Rightarrow> jsval" where
  "height_of a parentIsMainAxisRow parentStretchItems =
     (let layoutSizingVertical = or_default (layoutSizingVertical a) ''FIXED''
      in js_or (js_or
           (js_and (JBool (layoutSizingVertical = ''FIXED'')) (JNum (node_height a)))
           (js_and (JBool (layoutSizingVertical = ''FILL''))
                   (js_or (js_and (js_and (JBool parentIsMainAxisRow) (JBool parentStretchItems))
                                  (JStr ''auto''))
                          (JStr ''100%''))))
           (js_and (JBool (layoutSizingVertical = ''HUG'')) (JStr ''fit-content'')))"

subsection \<open>The object literals of the five branches\<close>

definition material_of :: "node_attrs \<Rightarrow> string \<Rightarrow> string" where
  "material_of a svg =
     ''Layta.svgCreate('' @ num_toString (node_width a) @ '', '' @ num_toString (node_height a)
       @ '', '' @ [CHR 0x27] @ strip_newlines svg @ [CHR 0x27] @ '')''"

definition font_of :: "string \<Rightarrow> int \<Rightarrow> string" where
  "font_of fName fSize =
     ''Layta.dxCreateFont('' @ [CHR 0x22] @ fName @ [CHR 0x22] @ '', ''
       @ quarters_toString fSize @ '', false, '' @ [CHR 0x22] @ ''cleartype_natural'' @ [CHR 0x22]
       @ '') or '' @ [CHR 0x22] @ ''default'' @ [CHR 0x22]"

definition image_props :: "node_attrs \<Rightarrow> bool \<Rightarrow> bool \<Rightarrow> bool \<Rightarrow> string \<Rightarrow> (string \<times> jsval) list" where
  "image_props a pf pr ps svg =
     [(''id'', JStr (node_name a)),
      (''visible'', JBool (node_visible a)),
      (''position'', JStr (position_of a pf)),
      (''left'', left_of a pf),
      (''top'', top_of a pf),
      (''width'', width_of a pr ps),
      (''height'', height_of a pr ps),
      (''foregroundColor'', opt_num (getFillColor a)),
      (''material'', JStr (material_of a svg))]"

definition frame_props :: "node_attrs \<Rightarrow> bool \<Rightarrow> bool \<Rightarrow> bool \<Rightarrow> (string \<times> jsval) list" where
  "frame_props a pf pr ps =
     [(''id'', JStr (node_name a)),
      (''visible'', JBool (node_visible a)),
      (''position'', JStr (position_of a pf)),
      (''left'', left_of a pf),
      (''top'', top_of a pf),
      (''flexDirection'', flexDirection_of a),
      (''flexWrap'', flexWrap_of a),
      (''justifyContent'', justifyContent_of a),
      (''alignItems'', alignItems_of a),
      (''gap'', opt_num (itemSpacing a)),
      (''width'', width_of a pr ps),
      (''height'', height_of a pr ps),
      (''fillColor'', opt_num (getFillColor a)),
      (''strokeColor'', opt_num (getStrokeColor a))]
     @ spread (getStrokeWeightProps a)
     @ spread (getBorderRadiusProps a)
     @ spread (getPaddingProps a)"

definition group_props :: "node_attrs \<Rightarrow> bool \<Rightarrow> bool \<Rightarrow> bool \<Rightarrow> (string \<times> jsval) list" where
  "group_props a pf pr ps =
     [(''id'', JStr (node_name a)),
      (''visible'', JBool (node_visible a)),
      (''position'', JStr (position_of a pf)),
      (''left'', left_of a pf),
      (''top'', top_of a pf),
      (''width'', width_of a pr ps),
      (''height'', height_of a pr ps)]"

definition instance_props :: "node_attrs \<Rightarrow> bool \<Rightarrow> bool \<Rightarrow> bool \<Rightarrow> (string \<times> jsval) list" where
  "instance_props a pf pr ps =
     [(''id'', JStr (node_name a)),
      (''visible'', JBool (node_visible a)),
      (''position'', JStr (position_of a pf)),
      (''left'', left_of a pf),
      (''top'', top_of a pf),
      (''flexDirection'', flexDirection_of a),
      (''flexWrap'', flexWrap_of a),
      (''justifyContent'', justifyContent_of a),
      (''alignItems'', alignItems_of a),
      (''gap'', opt_num (itemSpacing a)),
      (''width'', width_of a pr ps),
      (''height'', height_of a pr ps),
      (''backgroundColor'', opt_num (getFillColor a)),
      (''strokeColor'', opt_num (getStrokeColor a))]
     @ spread (getStrokeWeightProps a)
     @ spread (getBorderRadiusProps a)"

definition rectangle_props :: "node_attrs \<Rightarrow> bool \<Rightarrow> bool \<Rightarrow> bool \<Rightarrow> (string \<times> jsval) list" where
  "rectangle_props a pf pr ps =
     [(''id'', JStr (node_name a)),
      (''visible'', JBool (node_visible a)),
      (''position'', JStr (position_of a pf)),
      (''left'', left_of a pf),
      (''top'', top_of a pf),
      (''width'', width_of a pr ps),
      (''height'', height_of a pr ps),
      (''backgroundColor'', opt_num (getFillColor a)),
      (''strokeColor'', opt_num (getStrokeColor a))]
     @ spread (getStrokeWeightProps a)
     @ spread (getBorderRadiusProps a)"

definition text_props :: "node_attrs \<Rightarrow> bool \<Rightarrow> bool \<Rightarrow> bool \<Rightarrow> string \<Rightarrow> int \<Rightarrow> (string \<times> jsval) list" where
  "text_props a pf pr ps fName fSize =
     [(''id'', JStr (node_name a)),
      (''visible'', JBool (node_visible a)),
      (''position'', JStr (position_of a pf)),
      (''left'', left_of a pf),
      (''top'', top_of a pf),
      (''text'', JStr (characters a)),
      (''width'', width_of a pr ps),
      (''height'', height_of a pr ps),
      (''foregroundColor'', opt_num (getTextColor a)),
      (''font'', JStr (font_of fName fSize)),
      (''wordWrap'', JBool (textAutoResize a = ''HEIGHT''))]"

definition is_container_type :: "string \<Rightarrow> bool" where
  "is_container_type t = (t \<in> set [''FRAME'', ''GROUP'', ''COMPONENT'', ''INSTANCE''])"

definition all_vector :: "scene_node list \<Rightarrow> bool" where
  "all_vector cs = list_all (\<lambda>child. node_type (attrs child) = ''VECTOR'') cs"

definition not_iterable :: error where
  "not_iterable = TypeError ''figmaNode.children is not iterable''"

text \<open>
  \<open>createNode\<close> returns the node or the error it throws, and the errors it passed to
  \<open>console.log\<close> on the way, in order. \<open>createChildren\<close> is the loop
  \<open>for (const figmaChild of figmaNode.children) { try { node.children.push(await
  createNode(figmaChild, ...)) } catch (e) { console.log(e) } }\<close>, the same in the three
  container branches but for the arguments it passes on.
\<close>

fun createNode :: "host_export \<Rightarrow> scene_node \<Rightarrow> bool \<Rightarrow> bool \<Rightarrow> bool \<Rightarrow> (error + lnode) \<times> error list"
  and createChildren :: "host_export \<Rightarrow> scene_node list \<Rightarrow> bool \<Rightarrow> bool \<Rightarrow> bool \<Rightarrow> lnode list \<times> error list"
where
  "createNode exportAsync (SceneNode a ch) parentIsFrame parentIsMainAxisRow parentStretchItems =
     (if is_container_type (node_type a) \<and> (case ch of None \<Rightarrow> False | Some cs \<Rightarrow> all_vector cs)
      then (case safelyExport exportAsync (SceneNode a ch) of
              Inl e \<Rightarrow> (Inl e, [])
            | Inr svg \<Rightarrow>
                (Inr (LNode ''Layta.Image'' None
                        (image_props a parentIsFrame parentIsMainAxisRow parentStretchItems svg)), []))
      else if node_type a = ''FRAME''
      then (case ch of
              None \<Rightarrow> (Inl not_iterable, [])
            | Some cs \<Rightarrow>
                (case createChildren exportAsync cs True (flexDirection_of a = JStr ''row'') True of
                   (kids, logged) \<Rightarrow>
                     (Inr (LNode ''Layta.Node'' (Some kids)
                             (frame_props a parentIsFrame parentIsMainAxisRow parentStretchItems)), logged)))
      else if node_type a = ''GROUP'' \<or> node_type a = ''COMPONENT''
      then (case ch of
              None \<Rightarrow> (Inl not_iterable, [])
            | Some cs \<Rightarrow>
                (case createChildren exportAsync cs False True True of
                   (kids, logged) \<Rightarrow>
                     (Inr (LNode ''Layta.Node'' (Some kids)
                             (group_props a parentIsFrame parentIsMainAxisRow parentStretchItems)), logged)))
      else if node_type a = ''INSTANCE''
      then (case ch of
              None \<Rightarrow> (Inl not_iterable, [])
            | Some cs \<Rightarrow>
                (case createChildren exportAsync cs False (flexDirection_of a = JStr ''row'') True of
                   (kids, logged) \<Rightarrow>
                     (Inr (LNode ''Layta.Node'' (Some kids)
                             (instance_props a parentIsFrame parentIsMainAxisRow parentStretchItems)), logged)))
      else if node_type a = ''RECTANGLE''
      then (Inr (LNode ''Layta.Node'' (Some [])
                   (rectangle_props a parentIsFrame parentIsMainAxisRow parentStretchItems)), [])
      else if node_type a = ''TEXT''
      then (case getTextFont a of
              Inl e \<Rightarrow> (Inl e, [])
            | Inr (fName, fSize) \<Rightarrow>
                (Inr (LNode ''Layta.Text'' None
                        (text_props a parentIsFrame parentIsMainAxisRow parentStretchItems fName fSize)), []))
      else (Inl (UnsupportedType (node_type a)), []))"
| "createChildren exportAsync [] parentIsFrame parentIsMainAxisRow parentStretchItems = ([], [])"
| "createChildren exportAsync (figmaChild # rest) parentIsFrame parentIsMainAxisRow parentStretchItems =
     (case createNode exportAsync figmaChild parentIsFrame parentIsMainAxisRow parentStretchItems of
        (Inl e, logged) \<Rightarrow>
          (case createChildren exportAsync rest parentIsFrame parentIsMainAxisRow parentStretchItems of
             (kids, logged') \<Rightarrow> (kids, logged @ [e] @ logged'))
      | (Inr node, logged) \<Rightarrow>
          (case createChildren exportAsync rest parentIsFrame parentIsMainAxisRow parentStretchItems of
             (kids, logged') \<Rightarrow> (node # kids, logged @ logged')))"

section \<open>The earlier variant of the Tree Builder\<close>

text \<open>
  The second source file holds an earlier \<open>createNode\<close>, without positioning: it takes
  \<open>parentIsMainAxisRow\<close> and \<open>parentStretchItems\<close> only, tests the image case first and
  reads the layout properties in each branch, without a default for a property the node
  does not have (\<open>undefined\<close> equals none of the strings). Its style extractors read the
  four values of a group without testing that the node has them, which gives the empty
  object for a node that has none, as above; its \<open>getBackgroundColor\<close> is \<open>getFillColor\<close>
  under another name.
\<close>

definition flexDirection_direct :: "node_attrs \<Rightarrow> jsval" where
  "flexDirection_direct a =
     js_or (js_and (JBool (layoutMode a = Some ''HORIZONTAL'')) (JStr ''row''))
           (js_and (JBool (layoutMode a = Some ''VERTICAL'')) (JStr ''column''))"

definition flexWrap_direct :: "node_attrs \<Rightarrow> jsval" where
  "flexWrap_direct a =
     js_or (js_and (JBool (layoutWrap a = Some ''NO_WRAP'')) (JStr ''nowrap''))
           (js_and (JBool (layoutWrap a = Some ''WRAP'')) (JStr ''wrap''))"

definition justifyContent_direct :: "node_attrs \<Rightarrow> jsval" where
  "justifyContent_direct a =
     js_or (js_or (js_or
       (js_and (JBool (primaryAxisAlignItems a = Some ''MIN'')) (JStr ''flex-start''))
       (js_and (JBool (primaryAxisAlignItems a = Some ''MAX'')) (JStr ''flex-end'')))
       (js_and (JBool (primaryAxisAlignItems a = Some ''CENTER'')) (JStr ''center'')))
       (js_and (JBool (primaryAxisAlignItems a = Some ''SPACE_BETWEEN'')) (JStr ''space-between''))"

definition alignItems_direct :: "node_attrs \<Rightarrow> jsval" where
  "alignItems_direct a =
     js_or (js_or
       (js_and (JBool (counterAxisAlignItems a = Some ''MIN'')) (JStr ''stretch''))
       (js_and (JBool (counterAxisAlignItems a = Some ''MAX'')) (JStr ''flex-end'')))
       (js_and (JBool (counterAxisAlignItems a = Some ''CENTER'')) (JStr ''center''))"

definition width_direct :: "node_attrs \<Rightarrow> bool \<Rightarrow> bool \<Rightarrow> jsval" where
  "width_direct a parentIsMainAxisRow parentStretchItems =
     js_or (js_or
       (js_and (JBool (layoutSizingHorizontal a = Some ''FIXED'')) (JNum (node_width a)))
       (js_and (JBool (layoutSizingHorizontal a = Some ''FILL''))
               (js_or (js_and (js_and (JBool (\<not> parentIsMainAxisRow)) (JBool parentStretchItems))
                              (JStr ''auto''))
                      (JStr ''100%''))))
       (js_and (JBool (layoutSizingHorizontal a = Some ''HUG'')) (JStr ''fit-content''))"

definition height_direct :: "node_attrs \<Rightarrow> bool \<Rightarrow> bool \<Rightarrow> jsval" where
  "height_direct a parentIsMainAxisRow parentStretchItems =
     js_or (js_or
       (js_and (JBool (layoutSizingVertical a = Some ''FIXED'')) (JNum (node_height a)))
       (js_and (JBool (layoutSizingVertical a = Some ''FILL''))
               (js_or (js_and (js_and (JBool parentIsMainAxisRow) (JBool parentStretchItems))
                              (JStr ''auto''))
                      (JStr ''100%''))))
       (js_and (JBool (layoutSizingVertical a = Some ''HUG'')) (JStr ''fit-content''))"

definition material0_of :: "node_attrs \<Rightarrow> string \<Rightarrow> string" where
  "material0_of a svg =
     ''svgCreate('' @ num_toString (node_width a) @ '', '' @ num_toString (node_height a)
       @ '', '' @ [CHR 0x27] @ strip_newlines svg @ [CHR 0x27] @ '')''"

definition font0_of :: "string \<Rightarrow> int \<Rightarrow> string" where
  "font0_of fName fSize =
     ''dxCreateFont('' @ [CHR 0x22] @ fName @ [CHR 0x22] @ '', ''
       @ quarters_toString fSize @ '', false, '' @ [CHR 0x22] @ ''cleartype_natural'' @ [CHR 0x22]
       @ '') or '' @ [CHR 0x22] @ ''default'' @ [CHR 0x22]"

definition image0_props :: "node_attrs \<Rightarrow> bool \<Rightarrow> bool \<Rightarrow> string \<Rightarrow> (string \<times> jsval) list" where
  "image0_props a pr ps svg =
     [(''id'', JStr (node_name a)),
      (''visible'', JBool (node_visible a)),
      (''width'', width_of a pr ps),
      (''height'', height_of a pr ps),
      (''foregroundColor'', opt_num (getFillColor a)),
      (''material'', JStr (material0_of a svg))]"

definition frame0_props :: "node_attrs \<Rightarrow> bool \<Rightarrow> bool \<Rightarrow> (string \<times> jsval) list" where
  "frame0_props a pr ps =
     [(''id'', JStr (node_name a)),
      (''visible'', JBool (node_visible a)),
      (''flexDirection'', flexDirection_direct a),
      (''flexWrap'', flexWrap_direct a),
      (''justifyContent'', justifyContent_direct a),
      (''alignItems'', alignItems_direct a),
      (''gap'', opt_num (itemSpacing a)),
      (''width'', width_direct a pr ps),
      (''height'', height_direct a pr ps),
      (''backgroundColor'', opt_num (getFillColor a)),
      (''strokeColor'', opt_num (getStrokeColor a))]
     @ spread (getStrokeWeightProps a)
     @ spread (getBorderRadiusProps a)
     @ spread (getPaddingProps a)"

definition group0_props :: "node_attrs \<Rightarrow> bool \<Rightarrow> bool \<Rightarrow> (string \<times> jsval) list" where
  "group0_props a pr ps =
     [(''id'', JStr (node_name a)),
      (''visible'', JBool (node_visible a)),
      (''width'', width_direct a pr ps),
      (''height'', height_direct a pr ps)]"

definition instance0_props :: "node_attrs \<Rightarrow> bool \<Rightarrow> bool \<Rightarrow> (string \<times> jsval) list" where
  "instance0_props a pr ps =
     [(''id'', JStr (node_name a)),
      (''visible'', JBool (node_visible a)),
      (''flexDirection'', flexDirection_direct a),
      (''flexWrap'', flexWrap_direct a),
      (''justifyContent'', justifyContent_direct a),
      (''alignItems'', alignItems_direct a),
      (''gap'', opt_num (itemSpacing a)),
      (''width'', width_direct a pr ps),
      (''height'', height_direct a pr ps),
      (''backgroundColor'', opt_num (getFillColor a)),
      (''strokeColor'', opt_num (getStrokeColor a))]
     @ spread (getStrokeWeightProps a)
     @ spread (getBorderRadiusProps a)"

definition rectangle0_props :: "node_attrs \<Rightarrow> bool \<Rightarrow> bool \<Rightarrow> (string \<times> jsval) list" where
  "rectangle0_props a pr ps =
     [(''id'', JStr (node_name a)),
      (''visible'', JBool (node_visible a)),
      (''width'', width_direct a pr ps),
      (''height'', height_direct a pr ps),
      (''backgroundColor'', opt_num (getFillColor a)),
      (''strokeColor'', opt_num (getStrokeColor a))]
     @ spread (getStrokeWeightProps a)
     @ spread (getBorderRadiusProps a)"

definition text0_props :: "node_attrs \<Rightarrow> bool \<Rightarrow> bool \<Rightarrow> string \<Rightarrow> int \<Rightarrow> (string \<times> jsval) list" where
  "text0_props a pr ps fName fSize =
     [(''id'', JStr (node_name a)),
      (''visible'', JBool (node_visible a)),
      (''value'', JStr (characters a)),
      (''width'', width_direct a pr ps),
      (''height'', height_direct a pr ps),
      (''foregroundColor'', opt_num (getTextColor a)),
      (''font'', JStr (font0_of fName fSize)),
      (''wordWrap'', JBool (textAutoResize a = ''HEIGHT''))]"

fun createNode0 :: "host_export \<Rightarrow> scene_node \<Rightarrow> bool \<Rightarrow> bool \<Rightarrow> (error + lnode) \<times> error list"
  and createChildren0 :: "host_export \<Rightarrow> scene_node list \<Rightarrow> bool \<Rightarrow> bool \<Rightarrow> lnode list \<times> error list"
where
  "createNode0 exportAsync (SceneNode a ch) parentIsMainAxisRow parentStretchItems =
     (if is_container_type (node_type a) \<and> (case ch of None \<Rightarrow> False | Some cs \<Rightarrow> all_vector cs)
      then (case safelyExport exportAsync (SceneNode a ch) of
              Inl e \<Rightarrow> (Inl e, [])
            | Inr svg \<Rightarrow>
                (Inr (LNode ''Layta.Image'' None
                        (image0_props a parentIsMainAxisRow parentStretchItems svg)), []))
      else if node_type a = ''FRAME''
      then (case ch of
              None \<Rightarrow> (Inl not_iterable, [])
            | Some cs \<Rightarrow>
                (case createChildren0 exportAsync cs (flexDirection_direct a = JStr ''row'') True of
                   (kids, logged) \<Rightarrow>
                     (Inr (LNode ''Layta.Node'' (Some kids)
                             (frame0_props a parentIsMainAxisRow parentStretchItems)), logged)))
      else if node_type a = ''GROUP'' \<or> node_type a = ''COMPONENT''
      then (case ch of
              None \<Rightarrow> (Inl not_iterable, [])
            | Some cs \<Rightarrow>
                (case createChildren0 exportAsync cs True True of
                   (kids, logged) \<Rightarrow>
                     (Inr (LNode ''Layta.Node'' (Some kids)
                             (group0_props a parentIsMainAxisRow parentStretchItems)), logged)))
      else if node_type a = ''INSTANCE''
      then (case ch of
              None \<Rightarrow> (Inl not_iterable, [])
            | Some cs \<Rightarrow>
                (case createChildren0 exportAsync cs (flexDirection_direct a = JStr ''row'') True of
                   (kids, logged) \<Rightarrow>
                     (Inr (LNode ''Layta.Node'' (Some kids)
                             (instance0_props a parentIsMainAxisRow parentStretchItems)), logged)))
      else if node_type a = ''RECTANGLE''
      then (Inr (LNode ''Layta.Node'' (Some [])
                   (rectangle0_props a parentIsMainAxisRow parentStretchItems)), [])
      else if node_type a = ''TEXT''
      then (case getTextFont a of
              Inl e \<Rightarrow> (Inl e, [])
            | Inr (fName, fSize) \<Rightarrow>
                (Inr (LNode ''Layta.Text'' None
                        (text0_props a parentIsMainAxisRow parentStretchItems fName fSize)), []))
      else (Inl (UnsupportedType (node_type a)), []))"
| "createChildren0 exportAsync [] parentIsMainAxisRow parentStretchItems = ([], [])"
| "createChildren0 exportAsync (figmaChild # rest) parentIsMainAxisRow parentStretchItems =
     (case createNode0 exportAsync figmaChild parentIsMainAxisRow parentStretchItems of
        (Inl e, logged) \<Rightarrow>
          (case createChildren0 exportAsync rest parentIsMainAxisRow parentStretchItems of
             (kids, logged') \<Rightarrow> (kids, logged @ [e] @ logged'))
      | (Inr node, logged) \<Rightarrow>
          (case createChildren0 exportAsync rest parentIsMainAxisRow parentStretchItems of
             (kids, logged') \<Rightarrow> (node # kids, logged @ logged')))"

section \<open>Code Emitter\<close>

text \<open>\<open>value.replace(/^'(.*)'$/, "$1")\<close>: a string that starts and ends with a single
  quote, with no line terminator between them, loses the two quotes.\<close>

definition unquote :: "string \<Rightarrow> string" where
  "unquote s =
     (if 2 \<le> length s \<and> hd s = CHR 0x27 \<and> last s = CHR 0x27
         \<and> list_all (\<lambda>c. c \<noteq> CHR 0x0A \<and> c \<noteq> CHR 0x0D) (butlast (tl s))
      then butlast (tl s) else s)"

text \<open>\<open>(key === "font" || key == "material") && value.replace(...) || transpile(value)\<close>:
  only a string has \<open>replace\<close>, and an empty result is falsy.\<close>

definition prop_value :: "string \<Rightarrow> jsval \<Rightarrow> error + string" where
  "prop_value key v =
     (if key = ''font'' \<or> key = ''material''
      then (case v of
              JStr s \<Rightarrow> if unquote s \<noteq> [] then Inr (unquote s) else transpile v 0
            | _ \<Rightarrow> Inl (TypeError ''value.replace is not a function''))
      else transpile v 0)"

fun prop_texts :: "(string \<times> jsval) list \<Rightarrow> error + string list" where
  "prop_texts [] = Inr []"
| "prop_texts ((key, v) # kvs) =
     (case prop_value key v of
        Inl e \<Rightarrow> Inl e
      | Inr s \<Rightarrow> (case prop_texts kvs of
                   Inl e \<Rightarrow> Inl e
                 | Inr ss \<Rightarrow> Inr ((key @ '' = '' @ s) # ss)))"

definition props_text :: "(string \<times> jsval) list \<Rightarrow> error + string" where
  "props_text kvs =
     (case prop_texts (filter (\<lambda>(key, v). key \<noteq> ''constructor'' \<and> key \<noteq> ''children'') kvs) of
        Inl e \<Rightarrow> Inl e
      | Inr ss \<Rightarrow> Inr (join '', '' ss))"

fun buildTree :: "lnode \<Rightarrow> nat \<Rightarrow> error + string"
  and buildTrees :: "lnode list \<Rightarrow> nat \<Rightarrow> error + string list"
where
  "buildTree (LNode ctor ch kvs) level =
     (case props_text kvs of
        Inl e \<Rightarrow> Inl e
      | Inr ps \<Rightarrow>
          (case ch of
             None \<Rightarrow> Inr (indent level @ ctor @ ''({'' @ ps @ ''})'')
           | Some cs \<Rightarrow>
               if cs = [] then Inr (indent level @ ctor @ ''({'' @ ps @ ''})'')
               else (case buildTrees cs (level + 1) of
                       Inl e \<Rightarrow> Inl e
                     | Inr css \<Rightarrow>
                         Inr (indent level @ ctor @ ''('' @ [CHR 0x0A] @ indent (level + 1)
                              @ ''{'' @ ps @ ''},'' @ [CHR 0x0A]
                              @ join ('','' @ [CHR 0x0A]) css
                              @ [CHR 0x0A] @ indent level @ '')''))))"
| "buildTrees [] level = Inr []"
| "buildTrees (child # rest) level =
     (case buildTree child level of
        Inl e \<Rightarrow> Inl e
      | Inr s \<Rightarrow> (case buildTrees rest level of
                   Inl e \<Rightarrow> Inl e
                 | Inr ss \<Rightarrow> Inr (s # ss)))"

section \<open>Reading the result, and the nodes of the examples\<close>

text \<open>\<open>node[key]\<close> for a key other than \<open>constructor\<close> and \<open>children\<close>.\<close>

definition get_prop :: "lnode \<Rightarrow> string \<Rightarrow> jsval option" where
  "get_prop n key = map_of (l_props n) key"

text \<open>A rectangle of 200 by 50 at (10, 20), fixed on both axes, with no paint, no
  stroke and square corners; the other examples change some of its properties.\<close>

definition rect_attrs :: node_attrs where
  "rect_attrs =
     \<lparr>node_type = ''RECTANGLE'', node_name = ''box'', node_visible = True,
      node_x = 10, node_y = 20, node_width = 200, node_height = 50,
      layoutPositioning = Some ''AUTO'', layoutMode = None, layoutWrap = None,
      primaryAxisAlignItems = None, counterAxisAlignItems = None, itemSpacing = None,
      layoutSizingHorizontal = Some ''FIXED'', layoutSizingVertical = Some ''FIXED'',
      fills = Some [], strokes = Some [],
      cornerRadii = Some (0, 0, 0, 0), strokeWeights = Some (0, 0, 0, 0), paddings = None,
      characters = [], fontName = None, fontSize = None, styledTextSegments = [],
      textAutoResize = ''NONE''\<rparr>"

text \<open>A host whose export always succeeds.\<close>

definition export_ok :: host_export where
  "export_ok clone = Inr ''<svg></svg>''"

text \<open>The rule of the specification for a four-sided style group, on the four values
  and the object the extractor returns: \<open>short\<close> is the shorthand key, \<open>k1\<close> to \<open>k4\<close>
  the per-side keys.\<close>

definition collapse_rule ::
  "string \<Rightarrow> string \<Rightarrow> string \<Rightarrow> string \<Rightarrow> string \<Rightarrow> int \<Rightarrow> int \<Rightarrow> int \<Rightarrow> int
     \<Rightarrow> (string \<times> int) list \<Rightarrow> bool" where
  "collapse_rule short k1 k2 k3 k4 v1 v2 v3 v4 out =
     ((v1 = v2 \<and> v2 = v3 \<and> v3 = v4 \<and> v1 > 0 \<longrightarrow> out = [(short, v1)])
      \<and> (\<not> (v1 = v2 \<and> v2 = v3 \<and> v3 = v4) \<longrightarrow>
           out = filter (\<lambda>(k, v). v > 0) [(k1, v1), (k2, v2), (k3, v3), (k4, v4)]
           \<and> short \<notin> fst ` set out)
      \<and> (v1 = 0 \<and> v2 = 0 \<and> v3 = 0 \<and> v4 = 0 \<longrightarrow> out = [])
      \<and> (\<forall>(k, v) \<in> set out. v > 0))"

text \<open>A rectangle (radii and stroke weights, no paddings) and a frame with paddings.\<close>

definition plain_rect :: node_attrs where
  "plain_rect = rect_attrs\<lparr>cornerRadii := Some (5, 5, 5, 5), strokeWeights := Some (1, 0, 2, 0)\<rparr>"

definition padded_frame :: node_attrs where
  "padded_frame = rect_attrs\<lparr>node_type := ''FRAME'', cornerRadii := Some (0, 0, 0, 0),
       strokeWeights := Some (3, 3, 3, 3), paddings := Some (4, 0, 0, 8)\<rparr>"

text \<open>
  What the loop over the children does with one child, read off \<open>createNode\<close>: the node
  it pushes, if any, and what reaches \<open>console.log\<close> (the messages logged inside the
  child's conversion, then the error it threw, if any).
\<close>

definition converted :: "host_export \<Rightarrow> bool \<Rightarrow> bool \<Rightarrow> bool \<Rightarrow> scene_node \<Rightarrow> lnode option" where
  "converted ex pf pr ps child =
     (case fst (createNode ex child pf pr ps) of Inl e \<Rightarrow> None | Inr n \<Rightarrow> Some n)"

definition reported :: "host_export \<Rightarrow> bool \<Rightarrow> bool \<Rightarrow> bool \<Rightarrow> scene_node \<Rightarrow> error list" where
  "reported ex pf pr ps child =
     snd (createNode ex child pf pr ps)
       @ (case fst (createNode ex child pf pr ps) of Inl e \<Rightarrow> [e] | Inr n \<Rightarrow> [])"

text \<open>The arguments the three container branches pass to the conversion of their
  children (\<open>parentStretchItems\<close> is \<open>true\<close> in all three), and their object literals.\<close>

definition childIsFrame :: "node_attrs \<Rightarrow> bool" where
  "childIsFrame a = (node_type a = ''FRAME'')"

definition childMainAxisRow :: "node_attrs \<Rightarrow> bool" where
  "childMainAxisRow a =
     (if node_type a = ''GROUP'' \<or> node_type a = ''COMPONENT'' then True
      else flexDirection_of a = JStr ''row'')"

definition container_props :: "node_attrs \<Rightarrow> bool \<Rightarrow> bool \<Rightarrow> bool \<Rightarrow> (string \<times> jsval) list" where
  "container_props a pf pr ps =
     (if node_type a = ''FRAME'' then frame_props a pf pr ps
      else if node_type a = ''GROUP'' \<or> node_type a = ''COMPONENT'' then group_props a pf pr ps
      else instance_props a pf pr ps)"

text \<open>A horizontal auto-layout container with the attributes of a frame or an instance,
  a node of a kind the code does not support, and a second rectangle.\<close>

definition flex_attrs :: "string \<Rightarrow> node_attrs" where
  "flex_attrs kind =
     rect_attrs\<lparr>node_type := kind, node_name := ''card'', node_x := 0, node_y := 0,
                layoutMode := Some ''HORIZONTAL'', layoutWrap := Some ''NO_WRAP'',
                primaryAxisAlignItems := Some ''MIN'', counterAxisAlignItems := Some ''MIN'',
                itemSpacing := Some 8\<rparr>"

definition ellipse_node :: scene_node where
  "ellipse_node = SceneNode (rect_attrs\<lparr>node_type := ''ELLIPSE'', node_name := ''dot''\<rparr>) None"

definition second_rect :: scene_node where
  "second_rect = SceneNode (rect_attrs\<lparr>node_name := ''bar'', node_x := 30, node_y := 40\<rparr>) None"

definition vector_node :: scene_node where
  "vector_node = SceneNode (rect_attrs\<lparr>node_type := ''VECTOR'', node_name := ''path''\<rparr>) None"




text \<open>
  A host that reports what it is given: the \<open>x\<close> of the clone and whether the clone is
  visible, on two lines. And a hidden Group at x = 7 with two vector children.
\<close>

definition export_probe :: host_export where
  "export_probe clone =
     Inr (''<svg x='' @ num_toString (node_x (attrs clone))
          @ (if node_visible (attrs clone) then '' shown'' else '' hidden'') @ [CHR 0x0A] @ ''/>'')"

definition hidden_group :: scene_node where
  "hidden_group = SceneNode ((flex_attrs ''GROUP'')\<lparr>node_visible := False, node_x := 7\<rparr>)
                            (Some [vector_node, vector_node])"


definition text_node :: "string \<Rightarrow> scene_node" where
  "text_node family = SceneNode
     (rect_attrs\<lparr>node_type := ''TEXT'', node_name := ''t'', node_x := 0, node_y := 0,
                node_width := 1, node_height := 1,
                fills := Some [\<lparr>paint_type = ''SOLID'', color = (0, 0, 0), opacity = Some 1\<rparr>],
                characters := ''hi'', fontName := Some (family, ''B''), fontSize := Some 12\<rparr>) None"

definition group_node :: "scene_node list \<Rightarrow> scene_node" where
  "group_node kids = SceneNode
     (rect_attrs\<lparr>node_type := ''GROUP'', node_name := ''p'', node_x := 0, node_y := 0,
                node_width := 1, node_height := 1\<rparr>) (Some kids)"

definition text_leaf :: "string \<Rightarrow> lnode" where
  "text_leaf family = LNode ''Layta.Text'' None
     [(''id'', JStr ''t''), (''visible'', JBool True), (''position'', JStr ''absolute''),
      (''left'', JNum 0), (''top'', JNum 0), (''text'', JStr ''hi''), (''width'', JNum 1),
      (''height'', JNum 1), (''foregroundColor'', JNum (- 16777216)),
      (''font'', JStr (font_of (family @ ''-B.ttf'') 36)),
      (''wordWrap'', JBool False)]"

definition panel :: "lnode list \<Rightarrow> lnode" where
  "panel kids = LNode ''Layta.Node'' (Some kids)
     [(''id'', JStr ''p''), (''visible'', JBool True), (''position'', JStr ''absolute''),
      (''left'', JNum 0), (''top'', JNum 0), (''width'', JNum 1), (''height'', JNum 1)]"



text \<open>
  A Frame named \<open>i\\<close> (an i and a backslash) whose only child is a vector, painted
  opaque black, and the image the Tree Builder makes of it, with or without an empty
  \<open>children\<close>.
\<close>

definition icon_node :: scene_node where
  "icon_node = SceneNode
     (rect_attrs\<lparr>node_type := ''FRAME'', node_name := ''i'' @ [CHR 0x5C], node_x := 2, node_y := 3,
                node_width := 4, node_height := 5,
                fills := Some [\<lparr>paint_type = ''SOLID'', color = (0, 0, 0), opacity = Some 1\<rparr>]\<rparr>)
     (Some [vector_node])"

definition icon_leaf :: "lnode list option \<Rightarrow> lnode" where
  "icon_leaf ch = LNode ''Layta.Image'' ch
     [(''id'', JStr (''i'' @ [CHR 0x5C])), (''visible'', JBool True), (''position'', JStr ''absolute''),
      (''left'', JNum 2), (''top'', JNum 3), (''width'', JNum 4), (''height'', JNum 5),
      (''foregroundColor'', JNum (- 16777216)),
      (''material'', JStr (material_of (rect_attrs\<lparr>node_width := 4, node_height := 5\<rparr>) ''<svg></svg>''))]"

text \<open>
  The call tree a reader of the emitted text can hope to get back: the constructor tag,
  the fields in order and the children in order. \<open>buildTree\<close> treats a node without
  \<open>children\<close> and a node with an empty \<open>children\<close> alike, and so does the call tree.
\<close>

datatype call = Call string "(string \<times> jsval) list" "call list"


fun call_tree :: "lnode \<Rightarrow> call" where
  "call_tree (LNode ctor ch kvs) =
     Call ctor kvs (case ch of None \<Rightarrow> [] | Some cs \<Rightarrow> map call_tree cs)"




text \<open>
  The trees on which the emitted text is shown to determine the call tree. A constructor
  tag has no newline in it. A key has no blank and no opening brace in it, and is not
  \<open>constructor\<close> or \<open>children\<close>. The \<open>font\<close> and \<open>material\<close> fields, which are emitted raw,
  have the text the Tree Builder gives them, with a font file name that has no double
  quote and an exported content that has no single quote in it. Every other field is a
  boolean, a string, or an integral number of magnitude at most 2^53 (the numbers that
  \<open>toString\<close> prints as plain decimal numerals; a number with a fractional part is not
  a value of the model).
\<close>

fun scalar :: "jsval \<Rightarrow> bool" where
  "scalar (JBool b) = True"
| "scalar (JNum n) = (\<bar>n\<bar> \<le> 9007199254740992)"
| "scalar (JStr s) = True"
| "scalar v = False"





text \<open>The text \<open>buildTree\<close> returns on such a tree, without the error cases.\<close>

fun value_text :: "jsval \<Rightarrow> string" where
  "value_text (JBool b) = (if b then ''true'' else ''false'')"
| "value_text (JNum n) = num_toString n"
| "value_text (JStr s) = [CHR 0x22] @ escape_quotes s @ [CHR 0x22]"
| "value_text v = ''nil''"







definition key_shape :: "string \<Rightarrow> bool" where
  "key_shape k = (CHR '' '' \<notin> set k \<and> CHR ''{'' \<notin> set k)"

text \<open>
  What the Tree Builder builds: constructor tags without a newline, keys without a blank
  or an opening brace, fields that are booleans, numbers, strings or \<open>undefined\<close>, a \<open>font\<close>
  that is a call of \<open>Layta.dxCreateFont\<close> and a \<open>material\<close> that is a call of
  \<open>Layta.svgCreate\<close>.
\<close>

fun scalar_or_absent :: "jsval \<Rightarrow> bool" where
  "scalar_or_absent (JBool b) = True"
| "scalar_or_absent (JNum n) = True"
| "scalar_or_absent (JStr s) = True"
| "scalar_or_absent JUndef = True"
| "scalar_or_absent v = False"

definition built_field :: "string \<Rightarrow> jsval \<Rightarrow> bool" where
  "built_field k v =
     (key_shape k \<and> k \<noteq> ''constructor'' \<and> k \<noteq> ''children'' \<and> scalar_or_absent v
      \<and> (k = ''font'' \<longrightarrow> (\<exists>fName fSize. v = JStr (font_of fName fSize)))
      \<and> (k = ''material'' \<longrightarrow> (\<exists>a svg. v = JStr (material_of a svg))))"

fun built :: "lnode \<Rightarrow> bool" where
  "built (LNode ctor ch kvs) =
     (CHR 0x0A \<notin> set ctor
      \<and> list_all (\<lambda>(k, v). built_field k v) kvs
      \<and> (case ch of None \<Rightarrow> True | Some cs \<Rightarrow> list_all built cs))"

section \<open>Properties\<close>

lemmas prop_defs = image_props_def frame_props_def group_props_def instance_props_def
  rectangle_props_def text_props_def

lemmas text_defs = transpile_def emit_key_def key_test_def key_first_def key_rest_def
  braces_def indent_def num_toString_def nat_toString.simps digit_char_def digits_def
  escape_quotes_def

lemmas attr_defs = position_of_def left_of_def top_of_def width_of_def height_of_def
  flexDirection_of_def flexWrap_of_def justifyContent_of_def alignItems_of_def
  or_default_def js_or_def js_and_def opt_num_def spread_def put_positive_def
  getFillColor_def getStrokeColor_def getTextColor_def find_solid_def
  getStrokeWeightProps_def getBorderRadiusProps_def getPaddingProps_def

text \<open>Every node that \<open>createNode\<close> returns carries these five properties, computed
  from the source node and the context of the call.\<close>

lemma createNode_props:
  assumes "fst (createNode ex (SceneNode a ch) pf pr ps) = Inr n"
  shows "get_prop n ''width'' = Some (width_of a pr ps)"
    and "get_prop n ''height'' = Some (height_of a pr ps)"
    and "get_prop n ''position'' = Some (JStr (position_of a pf))"
    and "get_prop n ''left'' = Some (left_of a pf)"
    and "get_prop n ''top'' = Some (top_of a pf)"
  using assms
  by (auto simp: get_prop_def prop_defs split: if_splits sum.splits option.splits prod.splits)

subsection \<open>Sizing\<close>

lemma width_of_fixed:
  "layoutSizingHorizontal a = Some ''FIXED'' \<Longrightarrow>
   width_of a pr ps = (if node_width a = 0 then JBool False else JNum (node_width a))"
  by (simp add: width_of_def or_default_def js_or_def js_and_def)

lemma height_of_fixed:
  "layoutSizingVertical a = Some ''FIXED'' \<Longrightarrow>
   height_of a pr ps = (if node_height a = 0 then JBool False else JNum (node_height a))"
  by (simp add: height_of_def or_default_def js_or_def js_and_def)



text \<open>The rectangle of the specification's example: fixed 200 by 50 gives the numbers
  200 and 50.\<close>

lemma rectangle_200_50:
  "createNode export_ok (SceneNode rect_attrs None) False True True =
     (Inr (LNode ''Layta.Node'' (Some [])
        [(''id'', JStr ''box''), (''visible'', JBool True), (''position'', JStr ''absolute''),
         (''left'', JNum 10), (''top'', JNum 20), (''width'', JNum 200), (''height'', JNum 50),
         (''backgroundColor'', JUndef), (''strokeColor'', JUndef)]), [])"
  by (simp add: rect_attrs_def rectangle_props_def is_container_type_def attr_defs)

text \<open>
  Claim C1, at the input where the code departs from it: a rectangle with fixed sizing
  whose measured width is 0. \<open>"FIXED" === "FIXED" && 0\<close> is \<open>0\<close>, which is falsy, so the
  chain of \<open>||\<close> goes on to the FILL and HUG tests and ends in \<open>false\<close>: the node's width
  is the boolean \<open>false\<close>, not the number 0, in both variants of \<open>createNode\<close>.
\<close>

theorem fixed_zero_width_is_false:
  "createNode export_ok (SceneNode (rect_attrs\<lparr>node_width := 0\<rparr>) None) False True True =
     (Inr (LNode ''Layta.Node'' (Some [])
        [(''id'', JStr ''box''), (''visible'', JBool True), (''position'', JStr ''absolute''),
         (''left'', JNum 10), (''top'', JNum 20), (''width'', JBool False), (''height'', JNum 50),
         (''backgroundColor'', JUndef), (''strokeColor'', JUndef)]), [])
   \<and> createNode0 export_ok (SceneNode (rect_attrs\<lparr>node_width := 0\<rparr>) None) True True =
     (Inr (LNode ''Layta.Node'' (Some [])
        [(''id'', JStr ''box''), (''visible'', JBool True),
         (''width'', JBool False), (''height'', JNum 50),
         (''backgroundColor'', JUndef), (''strokeColor'', JUndef)]), [])"
  by (simp add: rect_attrs_def rectangle_props_def rectangle0_props_def is_container_type_def
      width_direct_def height_direct_def attr_defs)

subsection \<open>Style groups\<close>

text \<open>
  Claim C3: for the corner radii, the stroke weights and the paddings alike, and for
  each group on its own (a rectangle has radii and stroke weights and no paddings),
  four equal positive values give the shorthand key alone; values that differ give the
  per-side keys of the positive values, in the order the code tests them, and not the
  shorthand key; four zeros give the empty object; and no value of the object is zero.
  A node that does not have the group gets the empty object.
\<close>

theorem style_groups_collapse:
  "(cornerRadii a = Some (r1, r2, r3, r4) \<longrightarrow>
      collapse_rule ''borderRadius'' ''borderTopLeftRadius'' ''borderTopRightRadius''
        ''borderBottomLeftRadius'' ''borderBottomRightRadius'' r1 r2 r3 r4 (getBorderRadiusProps a))
   \<and> (strokeWeights b = Some (s1, s2, s3, s4) \<longrightarrow>
      collapse_rule ''strokeWeight'' ''strokeLeftWeight'' ''strokeTopWeight''
        ''strokeRightWeight'' ''strokeBottomWeight'' s1 s2 s3 s4 (getStrokeWeightProps b))
   \<and> (paddings c = Some (p1, p2, p3, p4) \<longrightarrow>
      collapse_rule ''padding'' ''paddingLeft'' ''paddingTop''
        ''paddingRight'' ''paddingBottom'' p1 p2 p3 p4 (getPaddingProps c))
   \<and> (cornerRadii a = None \<longrightarrow> getBorderRadiusProps a = [])
   \<and> (strokeWeights b = None \<longrightarrow> getStrokeWeightProps b = [])
   \<and> (paddings c = None \<longrightarrow> getPaddingProps c = [])"
proof (intro conjI impI)
  assume "cornerRadii a = Some (r1, r2, r3, r4)"
  then show "collapse_rule ''borderRadius'' ''borderTopLeftRadius'' ''borderTopRightRadius''
        ''borderBottomLeftRadius'' ''borderBottomRightRadius'' r1 r2 r3 r4 (getBorderRadiusProps a)"
    by (auto simp: collapse_rule_def getBorderRadiusProps_def put_positive_def)
next
  assume "strokeWeights b = Some (s1, s2, s3, s4)"
  then show "collapse_rule ''strokeWeight'' ''strokeLeftWeight'' ''strokeTopWeight''
        ''strokeRightWeight'' ''strokeBottomWeight'' s1 s2 s3 s4 (getStrokeWeightProps b)"
    by (auto simp: collapse_rule_def getStrokeWeightProps_def put_positive_def)
next
  assume "paddings c = Some (p1, p2, p3, p4)"
  then show "collapse_rule ''padding'' ''paddingLeft'' ''paddingTop''
        ''paddingRight'' ''paddingBottom'' p1 p2 p3 p4 (getPaddingProps c)"
    by (auto simp: collapse_rule_def getPaddingProps_def put_positive_def)
next
  assume "cornerRadii a = None"
  then show "getBorderRadiusProps a = []" by (simp add: getBorderRadiusProps_def)
next
  assume "strokeWeights b = None"
  then show "getStrokeWeightProps b = []" by (simp add: getStrokeWeightProps_def)
next
  assume "paddings c = None"
  then show "getPaddingProps c = []" by (simp add: getPaddingProps_def)
qed

theorem style_groups_collapse_witness:
  "getPaddingProps plain_rect = []
   \<and> getBorderRadiusProps plain_rect = [(''borderRadius'', 5)]
   \<and> getStrokeWeightProps plain_rect = [(''strokeLeftWeight'', 1), (''strokeRightWeight'', 2)]
   \<and> getBorderRadiusProps padded_frame = []
   \<and> getStrokeWeightProps padded_frame = [(''strokeWeight'', 3)]
   \<and> getPaddingProps padded_frame = [(''paddingLeft'', 4), (''paddingBottom'', 8)]"
proof -
  have rect: "cornerRadii plain_rect = Some (5, 5, 5, 5)" "strokeWeights plain_rect = Some (1, 0, 2, 0)"
    "paddings plain_rect = None"
    by (simp_all add: plain_rect_def rect_attrs_def)
  have frame: "cornerRadii padded_frame = Some (0, 0, 0, 0)"
    "strokeWeights padded_frame = Some (3, 3, 3, 3)" "paddings padded_frame = Some (4, 0, 0, 8)"
    by (simp_all add: padded_frame_def)
  from style_groups_collapse [of plain_rect 5 5 5 5 plain_rect 1 0 2 0 plain_rect]
    style_groups_collapse [of padded_frame 0 0 0 0 padded_frame 3 3 3 3 padded_frame 4 0 0 8]
    rect frame
  show ?thesis
    by (simp add: collapse_rule_def)
qed

subsection \<open>Colors\<close>

text \<open>
  Claim C5 as stated: opaque red packs to the number 4294901760. It does not: the
  shifts and \<open>|\<close> of JavaScript give a signed 32-bit integer.
\<close>

theorem opaque_red_is_not_unsigned:
  "packColor 1 0 0 1 \<noteq> 4294901760"
  by (simp add: packColor_def clamp_def toInt32_def)

text \<open>
  Claim C5 as amended: opaque red packs to the signed 32-bit integer -65536, whose 32
  bits are 0xFFFF0000 (the number is 4294901760 less \<open>2^32\<close>), with alpha in the most
  significant byte, then red, green and blue.
\<close>

theorem opaque_red_packed:
  "packColor 1 0 0 1 = - 65536
   \<and> packColor 1 0 0 1 mod 2 ^ 32 = 0xFFFF0000
   \<and> (word_of_int (packColor 1 0 0 1) :: 32 word) = 0xFFFF0000
   \<and> drop_bit 24 (word_of_int (packColor 1 0 0 1) :: 32 word) AND 0xFF = 0xFF
   \<and> drop_bit 16 (word_of_int (packColor 1 0 0 1) :: 32 word) AND 0xFF = 0xFF
   \<and> drop_bit 8 (word_of_int (packColor 1 0 0 1) :: 32 word) AND 0xFF = 0
   \<and> (word_of_int (packColor 1 0 0 1) :: 32 word) AND 0xFF = 0"
  by (simp add: packColor_def clamp_def toInt32_def)

subsection \<open>Keys of a mapping\<close>

text \<open>A key is written bare exactly when the test of the code accepts it.\<close>

lemma emit_key_bare_iff:
  "emit_key k = k \<longleftrightarrow> key_test k"
  by (simp add: emit_key_def)

lemma key_test_a: "key_test ''a''" and key_test_b_c: "\<not> key_test ''b-c''"
  by (simp_all add: key_test_def key_first_def key_rest_def)

lemma serialize_a_b_c:
  \<open>transpile (JObj [(''a'', JNum 1), (''b-c'', JNum 2)]) 0
     = Inr ''{\<newline>  a = 1,\<newline>  ["b-c"] = 2\<newline>}''\<close>
  by (simp add: text_defs)

text \<open>
  Claim C6, at the input where the code departs from it: the key "width" is an ordinary
  alphabetic identifier, but the character class \<open>[aZAZ]\<close> of the code holds only the
  letters a, Z and A, so the key is written in brackets and quotes.
\<close>

theorem width_key_is_bracketed:
  \<open>\<not> key_test ''width''
   \<and> transpile (JObj [(''width'', JNum 1)]) 0 = Inr ''{\<newline>  ["width"] = 1\<newline>}''\<close>
  by (simp add: text_defs)

subsection \<open>Containers and their children\<close>

lemma createChildren_eq:
  "createChildren ex cs pf pr ps =
     (List.map_filter (converted ex pf pr ps) cs, concat (map (reported ex pf pr ps) cs))"
proof (induction cs)
  case Nil
  show ?case by (simp add: List.map_filter_simps)
next
  case (Cons c cs)
  show ?case
  proof (cases "createNode ex c pf pr ps")
    case (Pair r lg)
    then show ?thesis
      using Cons.IH
      by (cases r) (simp_all add: List.map_filter_simps converted_def reported_def)
  qed
qed

lemma container_branch:
  assumes "is_container_type (node_type a)" and "\<not> all_vector cs"
  shows "createNode ex (SceneNode a (Some cs)) pf pr ps =
           (Inr (LNode ''Layta.Node''
                   (Some (List.map_filter (converted ex (childIsFrame a) (childMainAxisRow a) True) cs))
                   (container_props a pf pr ps)),
            concat (map (reported ex (childIsFrame a) (childMainAxisRow a) True) cs))"
  using assms
  by (auto simp: createChildren_eq is_container_type_def childIsFrame_def childMainAxisRow_def
      container_props_def)

lemma image_branch:
  assumes "is_container_type (node_type a)" and "all_vector cs"
  shows "createNode ex (SceneNode a (Some cs)) pf pr ps =
           (case safelyExport ex (SceneNode a (Some cs)) of
              Inl e \<Rightarrow> (Inl e, [])
            | Inr svg \<Rightarrow> (Inr (LNode ''Layta.Image'' None (image_props a pf pr ps svg)), []))"
  using assms by simp





text \<open>
  Claim C7: a Frame, Group, Component or Instance that is converted as a container
  returns its node whatever its children do. The children of the node are the
  conversions of the source children that did not throw, in source order; every
  child that throws is left out, and its error is in what the conversion logged, not in
  the result.
\<close>

theorem failed_children_are_dropped:
  assumes "is_container_type (node_type a)" and "\<not> all_vector cs"
  shows "\<exists>n. createNode ex (SceneNode a (Some cs)) pf pr ps =
                (Inr n, concat (map (reported ex (childIsFrame a) (childMainAxisRow a) True) cs))
            \<and> l_constructor n = ''Layta.Node''
            \<and> l_children n =
                Some (List.map_filter (converted ex (childIsFrame a) (childMainAxisRow a) True) cs)
            \<and> (\<forall>c \<in> set cs. \<forall>e.
                  fst (createNode ex c (childIsFrame a) (childMainAxisRow a) True) = Inl e \<longrightarrow>
                  e \<in> set (concat (map (reported ex (childIsFrame a) (childMainAxisRow a) True) cs)))"
proof -
  have "\<forall>c \<in> set cs. \<forall>e.
          fst (createNode ex c (childIsFrame a) (childMainAxisRow a) True) = Inl e \<longrightarrow>
          e \<in> set (concat (map (reported ex (childIsFrame a) (childMainAxisRow a) True) cs))"
    by (force simp: reported_def)
  then show ?thesis
    using container_branch [OF assms, of ex pf pr ps] by simp
qed

theorem failed_children_are_dropped_witness:
  "\<exists>n. createNode export_ok
          (SceneNode (flex_attrs ''FRAME'') (Some [SceneNode rect_attrs None, ellipse_node, second_rect]))
          False True True = (Inr n, [UnsupportedType ''ELLIPSE''])
        \<and> l_constructor n = ''Layta.Node''
        \<and> l_children n = Some
            [LNode ''Layta.Node'' (Some [])
               [(''id'', JStr ''box''), (''visible'', JBool True), (''position'', JStr ''relative''),
                (''left'', JUndef), (''top'', JUndef), (''width'', JNum 200), (''height'', JNum 50),
                (''backgroundColor'', JUndef), (''strokeColor'', JUndef)],
             LNode ''Layta.Node'' (Some [])
               [(''id'', JStr ''bar''), (''visible'', JBool True), (''position'', JStr ''relative''),
                (''left'', JUndef), (''top'', JUndef), (''width'', JNum 200), (''height'', JNum 50),
                (''backgroundColor'', JUndef), (''strokeColor'', JUndef)]]"
proof -
  have kind: "is_container_type (node_type (flex_attrs ''FRAME''))"
    by (simp add: is_container_type_def flex_attrs_def)
  have mixed: "\<not> all_vector [SceneNode rect_attrs None, ellipse_node, second_rect]"
    by (simp add: all_vector_def rect_attrs_def)
  from failed_children_are_dropped [OF kind mixed, of export_ok False True True]
  show ?thesis
    by (simp add: List.map_filter_simps converted_def reported_def childIsFrame_def
        childMainAxisRow_def flex_attrs_def rect_attrs_def ellipse_node_def second_rect_def
        rectangle_props_def is_container_type_def attr_defs)
qed

text \<open>
  Claim C8: a Frame, Group, Component or Instance whose children are all vectors is
  never converted as a container. The host is asked to export a copy of the node that
  is visible with all its descendants and placed at the origin. When that export
  returns, the result is a \<open>Layta.Image\<close> node that has no \<open>children\<close> and whose \<open>material\<close>
  is the call \<open>Layta.svgCreate(width, height, 'content')\<close> on the node's own width and
  height and the exported content without its newlines; when the export fails, its
  error is the result. Nothing is logged.
\<close>

theorem vector_only_is_image:
  assumes "is_container_type (node_type a)" and "all_vector cs"
  shows "(\<forall>content.
            ex (SceneNode (a\<lparr>node_visible := True, node_x := 0, node_y := 0\<rparr>)
                  (Some (map updateEffectiveVisibility cs))) = Inr content \<longrightarrow>
            createNode ex (SceneNode a (Some cs)) pf pr ps =
              (Inr (LNode ''Layta.Image'' None
                 [(''id'', JStr (node_name a)),
                  (''visible'', JBool (node_visible a)),
                  (''position'', JStr (position_of a pf)),
                  (''left'', left_of a pf),
                  (''top'', top_of a pf),
                  (''width'', width_of a pr ps),
                  (''height'', height_of a pr ps),
                  (''foregroundColor'', opt_num (getFillColor a)),
                  (''material'',
                     JStr (''Layta.svgCreate('' @ num_toString (node_width a) @ '', ''
                           @ num_toString (node_height a) @ '', '' @ [CHR 0x27]
                           @ filter (\<lambda>c. c \<noteq> CHR 0x0A) content @ [CHR 0x27] @ '')''))]), []))
       \<and> (\<forall>e. ex (SceneNode (a\<lparr>node_visible := True, node_x := 0, node_y := 0\<rparr>)
                  (Some (map updateEffectiveVisibility cs))) = Inl e \<longrightarrow>
            createNode ex (SceneNode a (Some cs)) pf pr ps = (Inl e, []))
       \<and> (\<forall>n. fst (createNode ex (SceneNode a (Some cs)) pf pr ps) = Inr n \<longrightarrow>
            l_constructor n = ''Layta.Image'' \<and> l_children n = None
            \<and> (\<exists>content.
                  ex (SceneNode (a\<lparr>node_visible := True, node_x := 0, node_y := 0\<rparr>)
                        (Some (map updateEffectiveVisibility cs))) = Inr content
                  \<and> get_prop n ''material'' =
                      Some (JStr (''Layta.svgCreate('' @ num_toString (node_width a) @ '', ''
                           @ num_toString (node_height a) @ '', '' @ [CHR 0x27]
                           @ filter (\<lambda>c. c \<noteq> CHR 0x0A) content @ [CHR 0x27] @ '')''))))"
proof -
  let ?clone = "SceneNode (a\<lparr>node_visible := True, node_x := 0, node_y := 0\<rparr>)
                  (Some (map updateEffectiveVisibility cs))"
  have export: "safelyExport ex (SceneNode a (Some cs)) =
      (case ex ?clone of Inl e \<Rightarrow> Inl e | Inr content \<Rightarrow> Inr (filter (\<lambda>c. c \<noteq> CHR 0x0A) content))"
    by (simp add: safelyExport_def move_to_origin_def strip_newlines_def split: sum.splits)
  show ?thesis
    using image_branch [OF assms, of ex pf pr ps]
    by (cases "ex ?clone")
       (simp_all add: export image_props_def material_of_def strip_newlines_def get_prop_def)
qed

theorem vector_only_is_image_witness:
  "createNode export_probe hidden_group False True True =
     (Inr (LNode ''Layta.Image'' None
        [(''id'', JStr ''card''), (''visible'', JBool False), (''position'', JStr ''absolute''),
         (''left'', JNum 7), (''top'', JNum 0), (''width'', JNum 200), (''height'', JNum 50),
         (''foregroundColor'', JUndef),
         (''material'', JStr (''Layta.svgCreate(200, 50, '' @ [CHR 0x27] @ ''<svg x=0 shown/>''
                               @ [CHR 0x27] @ '')''))]), [])"
proof -
  let ?a = "(flex_attrs ''GROUP'')\<lparr>node_visible := False, node_x := 7\<rparr>"
  have kind: "is_container_type (node_type ?a)"
    by (simp add: is_container_type_def flex_attrs_def)
  have vectors: "all_vector [vector_node, vector_node]"
    by (simp add: all_vector_def vector_node_def)
  have export: "export_probe (SceneNode (?a\<lparr>node_visible := True, node_x := 0, node_y := 0\<rparr>)
                  (Some (map updateEffectiveVisibility [vector_node, vector_node])))
                = Inr (''<svg x=0 shown'' @ [CHR 0x0A] @ ''/>'')"
    by (simp add: export_probe_def text_defs)
  have fields: "node_name ?a = ''card''" "node_visible ?a = False"
    "position_of ?a False = ''absolute''" "left_of ?a False = JNum 7" "top_of ?a False = JNum 0"
    "width_of ?a True True = JNum 200" "height_of ?a True True = JNum 50"
    "opt_num (getFillColor ?a) = JUndef"
    "num_toString (node_width ?a) = ''200''" "num_toString (node_height ?a) = ''50''"
    by (simp_all add: flex_attrs_def rect_attrs_def attr_defs text_defs)
  from vector_only_is_image [OF kind vectors, of export_probe False True True] export
  have "createNode export_probe (SceneNode ?a (Some [vector_node, vector_node])) False True True =
              (Inr (LNode ''Layta.Image'' None
                 [(''id'', JStr (node_name ?a)),
                  (''visible'', JBool (node_visible ?a)),
                  (''position'', JStr (position_of ?a False)),
                  (''left'', left_of ?a False),
                  (''top'', top_of ?a False),
                  (''width'', width_of ?a True True),
                  (''height'', height_of ?a True True),
                  (''foregroundColor'', opt_num (getFillColor ?a)),
                  (''material'',
                     JStr (''Layta.svgCreate('' @ num_toString (node_width ?a) @ '', ''
                           @ num_toString (node_height ?a) @ '', '' @ [CHR 0x27]
                           @ filter (\<lambda>c. c \<noteq> CHR 0x0A) (''<svg x=0 shown'' @ [CHR 0x0A] @ ''/>'')
                           @ [CHR 0x27] @ '')''))]), [])"
    by blast
  then show ?thesis
    by (simp only: fields hidden_group_def) simp
qed

text \<open>
  Claim C10: a Frame, Group, Component or Instance with an empty list of children
  passes the test "every child is a vector", so it is converted as an image and not as
  an empty container, in both variants of \<open>createNode\<close>: when the host's export returns,
  the result is a \<open>Layta.Image\<close> node with no \<open>children\<close>; when the export fails, its
  error is the result.
\<close>

theorem empty_container_is_image:
  assumes "is_container_type (node_type a)"
  shows "all_vector []
       \<and> (\<forall>svg. safelyExport ex (SceneNode a (Some [])) = Inr svg \<longrightarrow>
            createNode ex (SceneNode a (Some [])) pf pr ps =
              (Inr (LNode ''Layta.Image'' None (image_props a pf pr ps svg)), [])
            \<and> createNode0 ex (SceneNode a (Some [])) pr ps =
              (Inr (LNode ''Layta.Image'' None (image0_props a pr ps svg)), []))
       \<and> (\<forall>e. safelyExport ex (SceneNode a (Some [])) = Inl e \<longrightarrow>
            createNode ex (SceneNode a (Some [])) pf pr ps = (Inl e, [])
            \<and> createNode0 ex (SceneNode a (Some [])) pr ps = (Inl e, []))
       \<and> (\<forall>n. fst (createNode ex (SceneNode a (Some [])) pf pr ps) = Inr n
                \<or> fst (createNode0 ex (SceneNode a (Some [])) pr ps) = Inr n \<longrightarrow>
            l_constructor n = ''Layta.Image'' \<and> l_children n = None)"
proof -
  have empty: "all_vector []" by (simp add: all_vector_def)
  have early: "createNode0 ex (SceneNode a (Some [])) pr ps =
           (case safelyExport ex (SceneNode a (Some [])) of
              Inl e \<Rightarrow> (Inl e, [])
            | Inr svg \<Rightarrow> (Inr (LNode ''Layta.Image'' None (image0_props a pr ps svg)), []))"
    using assms empty by simp
  show ?thesis
    using image_branch [OF assms empty, of ex pf pr ps] early empty
    by (auto split: sum.splits)
qed

theorem empty_container_is_image_witness:
  "createNode export_ok (SceneNode (flex_attrs ''FRAME'') (Some [])) False True True =
     (Inr (LNode ''Layta.Image'' None
        [(''id'', JStr ''card''), (''visible'', JBool True), (''position'', JStr ''absolute''),
         (''left'', JNum 0), (''top'', JNum 0), (''width'', JNum 200), (''height'', JNum 50),
         (''foregroundColor'', JUndef),
         (''material'', JStr (''Layta.svgCreate(200, 50, '' @ [CHR 0x27] @ ''<svg></svg>'' @ [CHR 0x27] @ '')''))]),
      [])"
proof -
  have kind: "is_container_type (node_type (flex_attrs ''FRAME''))"
    by (simp add: is_container_type_def flex_attrs_def)
  have export: "safelyExport export_ok (SceneNode (flex_attrs ''FRAME'') (Some [])) = Inr ''<svg></svg>''"
    by (simp add: safelyExport_def export_ok_def strip_newlines_def)
  have props: "image_props (flex_attrs ''FRAME'') False True True ''<svg></svg>'' =
        [(''id'', JStr ''card''), (''visible'', JBool True), (''position'', JStr ''absolute''),
         (''left'', JNum 0), (''top'', JNum 0), (''width'', JNum 200), (''height'', JNum 50),
         (''foregroundColor'', JUndef),
         (''material'', JStr (''Layta.svgCreate(200, 50, '' @ [CHR 0x27] @ ''<svg></svg>'' @ [CHR 0x27] @ '')''))]"
    by (simp add: image_props_def material_of_def flex_attrs_def rect_attrs_def strip_newlines_def
        text_defs attr_defs)
  from empty_container_is_image [OF kind, of export_ok False True True] export
  have "createNode export_ok (SceneNode (flex_attrs ''FRAME'') (Some [])) False True True =
          (Inr (LNode ''Layta.Image'' None (image_props (flex_attrs ''FRAME'') False True True ''<svg></svg>'')), [])"
    by blast
  then show ?thesis
    by (simp only: props)
qed

subsection \<open>Positioning\<close>

text \<open>
  Claim C9 as stated fails at an Instance with horizontal auto layout (a flex container:
  its node carries \<open>flexDirection = "row"\<close>) and one rectangle child whose positioning
  mode is "AUTO": the child comes out absolute, with left and top set to its x and y.
\<close>

theorem instance_child_is_absolute:
  "createNode export_ok (SceneNode (flex_attrs ''INSTANCE'') (Some [SceneNode rect_attrs None]))
     False True True =
     (Inr (LNode ''Layta.Node''
        (Some [LNode ''Layta.Node'' (Some [])
                 [(''id'', JStr ''box''), (''visible'', JBool True), (''position'', JStr ''absolute''),
                  (''left'', JNum 10), (''top'', JNum 20), (''width'', JNum 200), (''height'', JNum 50),
                  (''backgroundColor'', JUndef), (''strokeColor'', JUndef)]])
        [(''id'', JStr ''card''), (''visible'', JBool True), (''position'', JStr ''absolute''),
         (''left'', JNum 0), (''top'', JNum 0), (''flexDirection'', JStr ''row''),
         (''flexWrap'', JStr ''nowrap''), (''justifyContent'', JStr ''flex-start''),
         (''alignItems'', JStr ''stretch''), (''gap'', JNum 8), (''width'', JNum 200),
         (''height'', JNum 50), (''backgroundColor'', JUndef), (''strokeColor'', JUndef)]),
      [])"
  by (simp add: flex_attrs_def rect_attrs_def all_vector_def instance_props_def rectangle_props_def
      is_container_type_def attr_defs)

text \<open>
  Claim C9 as amended: a node that \<open>createNode\<close> returns is absolute-positioned, with
  left and top equal to its own x and y, exactly when the call's \<open>parentIsFrame\<close> is
  false or the node's positioning mode is "ABSOLUTE"; otherwise it is
  relative-positioned and its left and top are undefined. A container passes
  \<open>parentIsFrame = true\<close> to its children exactly when it is a Frame: the children of a
  Group, a Component or an Instance are converted with \<open>parentIsFrame = false\<close>.
\<close>

theorem position_follows_parent_frame:
  "(fst (createNode ex (SceneNode a ch) parentIsFrame pr ps) = Inr n \<longrightarrow>
      (if \<not> parentIsFrame \<or> layoutPositioning a = Some ''ABSOLUTE''
       then get_prop n ''position'' = Some (JStr ''absolute'')
            \<and> get_prop n ''left'' = Some (JNum (node_x a))
            \<and> get_prop n ''top'' = Some (JNum (node_y a))
       else get_prop n ''position'' = Some (JStr ''relative'')
            \<and> get_prop n ''left'' = Some JUndef
            \<and> get_prop n ''top'' = Some JUndef))
   \<and> (is_container_type (node_type a) \<and> \<not> all_vector cs \<longrightarrow>
        (\<exists>kvs lg. createNode ex (SceneNode a (Some cs)) parentIsFrame pr ps =
           (Inr (LNode ''Layta.Node''
              (Some (List.map_filter
                      (converted ex (node_type a = ''FRAME'') (childMainAxisRow a) True) cs)) kvs), lg)))"
proof (intro conjI impI)
  assume run: "fst (createNode ex (SceneNode a ch) parentIsFrame pr ps) = Inr n"
  show "if \<not> parentIsFrame \<or> layoutPositioning a = Some ''ABSOLUTE''
       then get_prop n ''position'' = Some (JStr ''absolute'')
            \<and> get_prop n ''left'' = Some (JNum (node_x a))
            \<and> get_prop n ''top'' = Some (JNum (node_y a))
       else get_prop n ''position'' = Some (JStr ''relative'')
            \<and> get_prop n ''left'' = Some JUndef
            \<and> get_prop n ''top'' = Some JUndef"
    using createNode_props(3,4,5) [OF run]
    by (auto simp: position_of_def left_of_def top_of_def or_default_def split: option.splits)
next
  assume "is_container_type (node_type a) \<and> \<not> all_vector cs"
  then show "\<exists>kvs lg. createNode ex (SceneNode a (Some cs)) parentIsFrame pr ps =
           (Inr (LNode ''Layta.Node''
              (Some (List.map_filter
                      (converted ex (node_type a = ''FRAME'') (childMainAxisRow a) True) cs)) kvs), lg)"
    using container_branch [of a cs ex parentIsFrame pr ps] by (simp add: childIsFrame_def)
qed

theorem position_follows_parent_frame_witness:
  "get_prop (LNode ''Layta.Node'' (Some [])
        [(''id'', JStr ''box''), (''visible'', JBool True), (''position'', JStr ''relative''),
         (''left'', JUndef), (''top'', JUndef), (''width'', JNum 200), (''height'', JNum 50),
         (''backgroundColor'', JUndef), (''strokeColor'', JUndef)]) ''position'' = Some (JStr ''relative'')
   \<and> (\<exists>kvs lg. createNode export_ok
          (SceneNode (flex_attrs ''INSTANCE'') (Some [SceneNode rect_attrs None])) False True True =
        (Inr (LNode ''Layta.Node''
           (Some [LNode ''Layta.Node'' (Some [])
                 [(''id'', JStr ''box''), (''visible'', JBool True), (''position'', JStr ''absolute''),
                  (''left'', JNum 10), (''top'', JNum 20), (''width'', JNum 200), (''height'', JNum 50),
                  (''backgroundColor'', JUndef), (''strokeColor'', JUndef)]]) kvs), lg))"
proof -
  let ?n = "LNode ''Layta.Node'' (Some [])
        [(''id'', JStr ''box''), (''visible'', JBool True), (''position'', JStr ''relative''),
         (''left'', JUndef), (''top'', JUndef), (''width'', JNum 200), (''height'', JNum 50),
         (''backgroundColor'', JUndef), (''strokeColor'', JUndef)]"
  have run: "fst (createNode export_ok (SceneNode rect_attrs None) True True True) = Inr ?n"
    by (simp add: rect_attrs_def rectangle_props_def is_container_type_def attr_defs)
  have kind: "is_container_type (node_type (flex_attrs ''INSTANCE''))
              \<and> \<not> all_vector [SceneNode rect_attrs None]"
    by (simp add: is_container_type_def flex_attrs_def all_vector_def rect_attrs_def)
  have auto_mode: "layoutPositioning rect_attrs \<noteq> Some ''ABSOLUTE''"
    by (simp add: rect_attrs_def)
  have first: "get_prop ?n ''position'' = Some (JStr ''relative'')"
    using position_follows_parent_frame [of export_ok rect_attrs None True True True ?n "[]"]
      run auto_mode
    by simp
  have second: "\<exists>kvs lg. createNode export_ok
          (SceneNode (flex_attrs ''INSTANCE'') (Some [SceneNode rect_attrs None])) False True True =
        (Inr (LNode ''Layta.Node''
           (Some [LNode ''Layta.Node'' (Some [])
                 [(''id'', JStr ''box''), (''visible'', JBool True), (''position'', JStr ''absolute''),
                  (''left'', JNum 10), (''top'', JNum 20), (''width'', JNum 200), (''height'', JNum 50),
                  (''backgroundColor'', JUndef), (''strokeColor'', JUndef)]]) kvs), lg)"
    using position_follows_parent_frame
      [of export_ok "flex_attrs ''INSTANCE''" "Some [SceneNode rect_attrs None]" False True True ?n
          "[SceneNode rect_attrs None]"] kind
    by (simp add: List.map_filter_simps converted_def childMainAxisRow_def flex_attrs_def rect_attrs_def
        rectangle_props_def is_container_type_def attr_defs)
  from first second show ?thesis by blast
qed

subsection \<open>The emitted text and the call tree\<close>

lemma text_node_converted:
  "createNode export_ok (text_node family) False True True = (Inr (text_leaf family), [])"
  by (simp add: text_node_def text_leaf_def rect_attrs_def text_props_def getTextFont_def
      font_file_def strip_spaces_def is_space_def is_container_type_def
      pack_paint_def packColor_def clamp_def toInt32_def attr_defs)

lemma group_node_converted:
  assumes "\<not> all_vector kids"
  shows "fst (createNode export_ok (group_node kids) False True True)
           = Inr (panel (List.map_filter (converted export_ok False True True) kids))"
proof -
  have "is_container_type (node_type (rect_attrs\<lparr>node_type := ''GROUP'', node_name := ''p'',
          node_x := 0, node_y := 0, node_width := 1, node_height := 1\<rparr>))"
    by (simp add: is_container_type_def)
  from container_branch [OF this assms, of export_ok False True True] show ?thesis
    by (simp add: group_node_def panel_def container_props_def group_props_def childIsFrame_def
        childMainAxisRow_def rect_attrs_def attr_defs)
qed


subsection \<open>Reading a text from its end\<close>







subsection \<open>Printed numbers\<close>





















subsection \<open>One field\<close>













subsection \<open>The fields of a node\<close>






subsection \<open>A node and its children\<close>













text \<open>On an emittable tree \<open>buildTree\<close> does not fail, and returns \<open>tree_text\<close>.\<close>

lemma serialize_scalar: "scalar v \<Longrightarrow> serialize v level = Inr (value_text v)"
  by (cases v) simp_all











subsection \<open>The trees of the Tree Builder\<close>

text \<open>Every node of a tree that \<open>createNode\<close> returns is built in this way: the Tree
  Builder makes no sequence, no mapping and no \<open>null\<close>, and its keys and tags are fixed
  words.\<close>

lemma opt_num_scalar: "scalar_or_absent (opt_num v)"
  by (cases v) (simp_all add: opt_num_def)

lemma attr_scalar:
  "scalar_or_absent (left_of a pf)" "scalar_or_absent (top_of a pf)"
  "scalar_or_absent (width_of a pr ps)" "scalar_or_absent (height_of a pr ps)"
  "scalar_or_absent (flexDirection_of a)" "scalar_or_absent (flexWrap_of a)"
  "scalar_or_absent (justifyContent_of a)" "scalar_or_absent (alignItems_of a)"
  by (simp_all add: attr_defs Let_def)

lemma spread_built:
  "list_all (\<lambda>(k, v). built_field k v) (spread (getStrokeWeightProps a))"
  "list_all (\<lambda>(k, v). built_field k v) (spread (getBorderRadiusProps a))"
  "list_all (\<lambda>(k, v). built_field k v) (spread (getPaddingProps a))"
  by (simp_all add: spread_def getStrokeWeightProps_def getBorderRadiusProps_def
      getPaddingProps_def put_positive_def built_field_def key_shape_def split: option.splits)

lemma props_built:
  "list_all (\<lambda>(k, v). built_field k v) (image_props a pf pr ps svg)"
  "list_all (\<lambda>(k, v). built_field k v) (frame_props a pf pr ps)"
  "list_all (\<lambda>(k, v). built_field k v) (group_props a pf pr ps)"
  "list_all (\<lambda>(k, v). built_field k v) (instance_props a pf pr ps)"
  "list_all (\<lambda>(k, v). built_field k v) (rectangle_props a pf pr ps)"
  "list_all (\<lambda>(k, v). built_field k v) (text_props a pf pr ps fName fSize)"
  by (simp_all add: prop_defs spread_built)
     (auto simp: built_field_def key_shape_def attr_scalar opt_num_scalar)

lemma createNode_built:
  "fst (createNode ex n pf pr ps) = Inr t \<Longrightarrow> built t"
  and "list_all built (fst (createChildren ex cs pf pr ps))"
proof (induction ex n pf pr ps and ex cs pf pr ps arbitrary: t rule: createNode_createChildren.induct)
  case (1 ex a ch pf pr ps)
  then show ?case
    by (auto simp: props_built split: if_splits sum.splits option.splits prod.splits)
       (metis fst_conv)+
next
  case (2 ex pf pr ps)
  show ?case by simp
next
  case (3 ex c rest pf pr ps)
  then show ?case
    by (auto split: sum.splits prod.splits)
qed

subsection \<open>What the emitted text does not tell\<close>

text \<open>
  The emitted text does not tell apart fields that are sequences or mappings (which the
  Tree Builder never makes): an empty sequence and an empty mapping are both emitted as
  \<open>{}\<close>, and a
  key of a mapping is written between \<open>["\<close> and \<open>"]\<close> as it is, so a key can hold the end
  of one entry and the start of the next. It does not tell \<open>null\<close> from \<open>undefined\<close>, which
  are both emitted as \<open>nil\<close>. And it is ambiguous when a key of a node has a blank or
  an opening brace in it, or when a constructor tag has a newline in it.
\<close>

lemma empty_sequence_and_mapping_collide:
  "buildTree (LNode ''T'' None [(''a'', JArr [])]) 0 = buildTree (LNode ''T'' None [(''a'', JObj [])]) 0
   \<and> call_tree (LNode ''T'' None [(''a'', JArr [])]) \<noteq> call_tree (LNode ''T'' None [(''a'', JObj [])])"
  by (simp add: props_text_def prop_value_def text_defs)

lemma bracketed_key_collides:
  \<open>buildTree (LNode ''T'' None [(''a'', JObj [(''b'', JNum 1), (''c'', JNum 2)])]) 0
     = buildTree (LNode ''T'' None [(''a'', JObj [(''b"] = 1,\<newline>  ["c'', JNum 2)])]) 0
   \<and> call_tree (LNode ''T'' None [(''a'', JObj [(''b'', JNum 1), (''c'', JNum 2)])])
     \<noteq> call_tree (LNode ''T'' None [(''a'', JObj [(''b"] = 1,\<newline>  ["c'', JNum 2)])])\<close>
  by (simp add: props_text_def prop_value_def text_defs nat_toString.simps)

lemma null_and_undefined_collide:
  "buildTree (LNode ''T'' None [(''a'', JNull)]) 0 = buildTree (LNode ''T'' None [(''a'', JUndef)]) 0
   \<and> call_tree (LNode ''T'' None [(''a'', JNull)]) \<noteq> call_tree (LNode ''T'' None [(''a'', JUndef)])"
  by (simp add: props_text_def prop_value_def text_defs)

lemma blank_in_key_collides:
  "buildTree (LNode ''T'' None [(''a = 1, b'', JNum 2)]) 0
     = buildTree (LNode ''T'' None [(''a'', JNum 1), (''b'', JNum 2)]) 0
   \<and> call_tree (LNode ''T'' None [(''a = 1, b'', JNum 2)])
     \<noteq> call_tree (LNode ''T'' None [(''a'', JNum 1), (''b'', JNum 2)])"
  by (simp add: props_text_def prop_value_def text_defs nat_toString.simps)

lemma brace_in_key_collides:
  "buildTree (LNode ''T'' None [(''x({a'', JNum 1)]) 0 = buildTree (LNode ''T({x'' None [(''a'', JNum 1)]) 0
   \<and> call_tree (LNode ''T'' None [(''x({a'', JNum 1)]) \<noteq> call_tree (LNode ''T({x'' None [(''a'', JNum 1)])"
  by (simp add: props_text_def prop_value_def text_defs nat_toString.simps)

lemma newline_in_tag_collides:
  \<open>buildTree (LNode ''P'' (Some [LNode ''X'' None [], LNode ''Y'' None []]) []) 0
     = buildTree (LNode ''P'' (Some [LNode ''X({}),\<newline>  Y'' None []]) []) 0
   \<and> call_tree (LNode ''P'' (Some [LNode ''X'' None [], LNode ''Y'' None []]) [])
     \<noteq> call_tree (LNode ''P'' (Some [LNode ''X({}),\<newline>  Y'' None []]) [])\<close>
  by (simp add: props_text_def prop_value_def text_defs)

subsection \<open>The emitted text determines the call tree\<close>



text \<open>The Tree Builder makes trees with a text and an image that are emittable.\<close>

lemma icon_node_converted:
  "createNode export_ok icon_node False True True = (Inr (icon_leaf None), [])"
  by (simp add: icon_node_def icon_leaf_def vector_node_def rect_attrs_def image_props_def
      material_of_def safelyExport_def move_to_origin_def export_ok_def strip_newlines_def
      all_vector_def is_container_type_def pack_paint_def packColor_def clamp_def toInt32_def
      attr_defs)

lemma text_and_image_converted:
  "fst (createNode export_ok (group_node [text_node ''A'', icon_node]) False True True)
     = Inr (panel [text_leaf ''A'', icon_leaf None])"
proof -
  have "\<not> all_vector [text_node ''A'', icon_node]"
    by (simp add: all_vector_def text_node_def rect_attrs_def)
  from group_node_converted [OF this] show ?thesis
    by (simp add: List.map_filter_simps converted_def text_node_converted icon_node_converted)
qed





end
